theory Spec2Isabelle
  imports Main
begin

section \<open>Data model of the voting client\<close>

text \<open>
  A JavaScript object used as a dictionary (\<open>ContestMap\<close>, \<open>ContestIndexed\<close>, a
  cast-vote-record) is represented by the list of its own enumerable properties in
  enumeration order, which is what \<open>Object.keys\<close> and \<open>for ... in\<close> visit. Property
  assignment \<open>obj[k] = v\<close> overwrites in place or appends; \<open>Object.fromEntries\<close> performs
  the assignments in order. (The engine's reordering of integer-like keys is not modelled:
  every map below is rebuilt from the keys of an existing object, which are already in
  enumeration order.)
\<close>

type_synonym 'a ContestMap = "(string \<times> 'a) list"

fun objSet :: "string \<Rightarrow> 'a \<Rightarrow> 'a ContestMap \<Rightarrow> 'a ContestMap" where
  "objSet k v [] = [(k, v)]"
| "objSet k v ((k', v') # rest) =
     (if k' = k then (k, v) # rest else (k', v') # objSet k v rest)"

definition fromEntries :: "(string \<times> 'a) list \<Rightarrow> 'a ContestMap" where
  "fromEntries entries = foldl (\<lambda>obj (k, v). objSet k v obj) [] entries"

definition objKeys :: "'a ContestMap \<Rightarrow> string list" where
  "objKeys obj = map fst obj"

text \<open>JavaScript truthiness of an optional string: \<open>undefined\<close> and \<open>''\<close> are falsy.\<close>

fun truthyString :: "string option \<Rightarrow> bool" where
  "truthyString None = False"
| "truthyString (Some v) = (v \<noteq> [])"

text \<open>The value of a truthy optional string, for a guard of the form \<open>if (!x) ...\<close>.\<close>

fun ifTruthy :: "string option \<Rightarrow> string option" where
  "ifTruthy None = None"
| "ifTruthy (Some v) = (if v = [] then None else Some v)"

text \<open>Truthiness of an optional object or array: only \<open>undefined\<close> is falsy.\<close>

fun truthyObject :: "'a option \<Rightarrow> bool" where
  "truthyObject None = False"
| "truthyObject (Some v) = True"

type_synonym CastVoteRecord = "string ContestMap"

record KeyPair =
  privateKey :: string
  publicKey :: string

record OpenableEnvelope =
  cryptogram :: string
  randomness :: string
  proof' :: string

record EmptyCryptogram =
  empty_cryptogram :: string

text \<open>
  A contest of the election configuration (\<open>Ballot\<close>): its numeric id, its vote encoding
  type and the references of its options.
\<close>

record Ballot =
  ballot_id :: nat
  vote_encoding_type :: nat
  options :: "string list"

record Service =
  url :: string
  election_context_uuid :: string
  public_key :: string

record AffidavitConfig =
  curve :: string
  affidavitEncryptionKey :: string

record ElectionConfig =
  encryptionKey :: string
  signingPublicKey :: string
  election_id :: nat
  ballots :: "Ballot list"
  affidavit :: AffidavitConfig
  voter_authorizer :: Service
  otp_provider :: Service

record BallotBoxReceipt =
  previousBoardHash :: string
  boardHash :: string
  registeredAt :: string
  serverSignature :: string
  voteSubmissionId :: nat

record CryptogramWithProof =
  cwp_cryptogram :: string
  cwp_proof :: string

record AcknowledgedBoard =
  currentBoardHash :: string
  currentTime :: string

record RegisterVoterResponse =
  rv_voterIdentifier :: string
  rv_emptyCryptograms :: "EmptyCryptogram ContestMap"
  rv_contestIds :: "nat list"

record AuthenticationResponse =
  au_voterIdentifier :: string
  au_keyPair :: KeyPair
  au_emptyCryptograms :: "EmptyCryptogram ContestMap"

text \<open>The private fields of \<open>AVClient\<close>; \<open>None\<close> is a field that is still \<open>undefined\<close>.\<close>

record AVClient =
  authorizationSessionId :: "string option"
  email :: "string option"
  identityConfirmationToken :: "string option"
  electionConfig :: "ElectionConfig option"
  emptyCryptograms :: "EmptyCryptogram ContestMap option"
  keyPair :: "KeyPair option"
  testCode :: "string option"
  voteEncryptions :: "OpenableEnvelope ContestMap option"
  voterIdentifier :: "string option"
  contestIds :: "nat list option"

text \<open>The constructor leaves every field undefined.\<close>

definition newAVClient :: AVClient where
  "newAVClient =
     \<lparr> authorizationSessionId = None, email = None, identityConfirmationToken = None,
       electionConfig = None, emptyCryptograms = None, keyPair = None, testCode = None,
       voteEncryptions = None, voterIdentifier = None, contestIds = None \<rparr>"

subsection \<open>Errors, effects and collaborators\<close>

text \<open>
  Every \<open>throw\<close> and every rejected promise is a value: the error classes of
  \<open>av_client/errors\<close>, the built-in \<open>TypeError\<close> (reading a property of \<open>undefined\<close>; the
  string names the property) and \<open>Error\<close>, and \<open>Rejection\<close> for a promise rejected with a
  bare string.
\<close>

datatype error =
    InvalidStateError string
  | CorruptCvrError string
  | InvalidConfigError string
  | NetworkError string
  | TypeError string
  | Error string
  | Rejection string

datatype service_call =
    GetElectionConfig | Authenticate | CreateSession | RequestOTPAuthorization
  | RequestPublicKeyAuthorization | RegisterVoter | GetBoardHash | SubmitVotes

datatype crypto_call =
    RandomKeyPair | Encrypt | Fingerprint | GenerateTestCode | EncryptAffidavit | HashString
  | GenerateSchnorrSignature | VerifySchnorrSignature

datatype effect = Network service_call | Crypto crypto_call

datatype json = JUndefined | JStr string | JNum nat | JObj "(string \<times> json) list"

record BoardHashData =
  data_currentBoardHash :: "string option"
  data_currentTime :: "string option"

datatype submit_data = SubmitError string | SubmitReceipt BallotBoxReceipt

text \<open>
  The collaborators the client consumes and that are not part of it: the network services
  (bulletin board, OTP provider, voter authorization coordinator), each answering a request
  with an error or its response data, and the cryptographic library together with
  \<open>JSON.stringify\<close>. Within one operation each service is called at most once, so a
  function of the request is fully general.
\<close>

record world =
  fetchElectionConfigData :: "error + ElectionConfig"
  authenticate :: "string list \<Rightarrow> nat \<Rightarrow> string \<Rightarrow> error + AuthenticationResponse"
  createSession :: "string \<Rightarrow> string \<Rightarrow> string \<Rightarrow> error + string"
  requestOTPAuthorization :: "string \<Rightarrow> string \<Rightarrow> string \<Rightarrow> error + string"
  requestPublicKeyAuthorization ::
    "string \<Rightarrow> string option \<Rightarrow> string \<Rightarrow> string \<Rightarrow> error + string \<times> string"
  bulletinBoardRegisterVoter ::
    "KeyPair \<Rightarrow> string \<Rightarrow> string \<Rightarrow> string \<Rightarrow> error + RegisterVoterResponse"
  getBoardHash :: "error + BoardHashData"
  submitVotes :: "string \<Rightarrow> string \<Rightarrow> CryptogramWithProof ContestMap \<Rightarrow> error + submit_data"
  randomKeyPair :: KeyPair
  encrypt ::
    "CastVoteRecord \<Rightarrow> string ContestMap \<Rightarrow> nat ContestMap \<Rightarrow> string
       \<Rightarrow> error + OpenableEnvelope ContestMap"
  fingerprint :: "string ContestMap \<Rightarrow> string"
  newTestCode :: string
  encryptAffidavit :: "string \<Rightarrow> AffidavitConfig \<Rightarrow> string"
  hashString :: "string \<Rightarrow> string"
  JSON_stringify :: "json \<Rightarrow> string"
  generateSchnorrSignature :: "string \<Rightarrow> string \<Rightarrow> string"
  verifySchnorrSignature :: "string \<Rightarrow> string \<Rightarrow> string \<Rightarrow> bool"

text \<open>
  An operation returns what the caller sees (the thrown error or the resolved value), the
  client afterwards, and the calls it made, in order.
\<close>

type_synonym 'a outcome = "(error + 'a) \<times> AVClient \<times> effect list"

section \<open>Election configuration\<close>

definition containsOTPProviderURL :: "ElectionConfig \<Rightarrow> bool" where
  "containsOTPProviderURL config = (length (url (otp_provider config)) > 0)"

definition containsOTPProviderContextId :: "ElectionConfig \<Rightarrow> bool" where
  "containsOTPProviderContextId config =
     (length (election_context_uuid (otp_provider config)) > 0)"

definition containsOTPProviderPublicKey :: "ElectionConfig \<Rightarrow> bool" where
  "containsOTPProviderPublicKey config = (length (public_key (otp_provider config)) > 0)"

definition containsVoterAuthorizerURL :: "ElectionConfig \<Rightarrow> bool" where
  "containsVoterAuthorizerURL config = (length (url (voter_authorizer config)) > 0)"

definition containsVoterAuthorizerContextId :: "ElectionConfig \<Rightarrow> bool" where
  "containsVoterAuthorizerContextId config =
     (length (election_context_uuid (voter_authorizer config)) > 0)"

definition containsVoterAuthorizerPublicKey :: "ElectionConfig \<Rightarrow> bool" where
  "containsVoterAuthorizerPublicKey config =
     (length (public_key (voter_authorizer config)) > 0)"

fun joinWith :: "string \<Rightarrow> string list \<Rightarrow> string" where
  "joinWith sep [] = []"
| "joinWith sep [x] = x"
| "joinWith sep (x # xs) = x @ sep @ joinWith sep xs"

definition validateElectionConfig :: "ElectionConfig \<Rightarrow> error + unit" where
  "validateElectionConfig config =
     (let errors =
        (if \<not> containsOTPProviderURL config
         then [''Configuration is missing OTP Provider URL''] else []) @
        (if \<not> containsOTPProviderContextId config
         then [''Configuration is missing OTP Provider election context uuid''] else []) @
        (if \<not> containsOTPProviderPublicKey config
         then [''Configuration is missing OTP Provider public key''] else []) @
        (if \<not> containsVoterAuthorizerURL config
         then [''Configuration is missing Voter Authorizer URL''] else []) @
        (if \<not> containsVoterAuthorizerContextId config
         then [''Configuration is missing Voter Authorizer election context uuid''] else []) @
        (if \<not> containsVoterAuthorizerPublicKey config
         then [''Configuration is missing Voter Authorizer public key''] else [])
      in if length errors > 0
         then Inl (InvalidConfigError
                (''Received invalid election configuration. Errors: '' @
                 joinWith ('','' @ [CHR 0x0A]) errors))
         else Inr ())"

text \<open>\<open>fetchElectionConfig\<close> appends the affidavit configuration to the fetched data.\<close>

definition fetchElectionConfig :: "world \<Rightarrow> error + ElectionConfig" where
  "fetchElectionConfig w =
     (case fetchElectionConfigData w of
        Inl e \<Rightarrow> Inl e
      | Inr configData \<Rightarrow>
          Inr (configData\<lparr> affidavit :=
                 \<lparr> curve = ''k256'',
                   affidavitEncryptionKey =
                     ''03e9858b6e48eb93d8f27aa76b60806298c4c7dd94077ad6c3ff97c44937888647'' \<rparr> \<rparr>))"

section \<open>Submission and receipt verification (SubmitVotes)\<close>

definition acknowledge :: "world \<Rightarrow> error + AcknowledgedBoard" where
  "acknowledge w =
     (case getBoardHash w of
        Inl e \<Rightarrow> Inl e
      | Inr d \<Rightarrow>
          (case (ifTruthy (data_currentBoardHash d), ifTruthy (data_currentTime d)) of
             (Some h, Some t) \<Rightarrow> Inr \<lparr> currentBoardHash = h, currentTime = t \<rparr>
           | _ \<Rightarrow> Inl (Rejection ''Could not get latest board hash'')))"

definition submit ::
  "world \<Rightarrow> string \<Rightarrow> string \<Rightarrow> CryptogramWithProof ContestMap \<Rightarrow> error + BallotBoxReceipt"
where
  "submit w contentHash voterSignature cryptogramsWithProofs =
     (case submitVotes w contentHash voterSignature cryptogramsWithProofs of
        Inl e \<Rightarrow> Inl e
      | Inr (SubmitError description) \<Rightarrow> Inl (Rejection description)
      | Inr (SubmitReceipt receipt) \<Rightarrow> Inr receipt)"

definition sign :: "world \<Rightarrow> string \<Rightarrow> string \<Rightarrow> string" where
  "sign w contentHash privKey = generateSchnorrSignature w contentHash privKey"

definition boardHashObject :: "string \<Rightarrow> BallotBoxReceipt \<Rightarrow> json" where
  "boardHashObject contentHash receipt =
     JObj [(''content_hash'', JStr contentHash),
           (''previous_board_hash'', JStr (previousBoardHash receipt)),
           (''registered_at'', JStr (registeredAt receipt))]"

definition receiptHashObject :: "string \<Rightarrow> BallotBoxReceipt \<Rightarrow> json" where
  "receiptHashObject voterSignature receipt =
     JObj [(''board_hash'', JStr (boardHash receipt)),
           (''signature'', JStr voterSignature)]"

definition verifyReceipt ::
  "world \<Rightarrow> string \<Rightarrow> string \<Rightarrow> BallotBoxReceipt \<Rightarrow> string \<Rightarrow> (error + unit) \<times> effect list"
where
  "verifyReceipt w contentHash voterSignature receipt signatureKey =
     (let boardHashString = JSON_stringify w (boardHashObject contentHash receipt);
          computedBoardHash = hashString w boardHashString
      in if computedBoardHash \<noteq> boardHash receipt
         then (Inl (Rejection ''Invalid vote receipt: corrupt board hash''), [Crypto HashString])
         else
           (let receiptHashString = JSON_stringify w (receiptHashObject voterSignature receipt);
                receiptHash = hashString w receiptHashString
            in if \<not> verifySchnorrSignature w (serverSignature receipt) receiptHash signatureKey
               then (Inl (Rejection ''Invalid vote receipt: corrupt server signature''),
                     [Crypto HashString, Crypto HashString, Crypto VerifySchnorrSignature])
               else (Inr (),
                     [Crypto HashString, Crypto HashString, Crypto VerifySchnorrSignature])))"

text \<open>
  The \<open>for ... in\<close> loop of \<open>signAndSubmitVotes\<close> fills two objects, one property per
  contest; over \<open>undefined\<close> it does not iterate.
\<close>

definition forInEntries :: "'a ContestMap option \<Rightarrow> (string \<times> 'a) list" where
  "forInEntries obj = (case obj of None \<Rightarrow> [] | Some entries \<Rightarrow> entries)"

definition votesOf :: "OpenableEnvelope ContestMap option \<Rightarrow> string ContestMap" where
  "votesOf voteEncs =
     foldl (\<lambda>votes (contestId, enc). objSet contestId (cryptogram enc) votes) []
       (forInEntries voteEncs)"

definition cryptogramsWithProofsOf ::
  "OpenableEnvelope ContestMap option \<Rightarrow> CryptogramWithProof ContestMap"
where
  "cryptogramsWithProofsOf voteEncs =
     foldl (\<lambda>cwps (contestId, enc).
              objSet contestId \<lparr> cwp_cryptogram = cryptogram enc, cwp_proof = proof' enc \<rparr> cwps)
       [] (forInEntries voteEncs)"

definition jsonOfString :: "string option \<Rightarrow> json" where
  "jsonOfString v = (case v of None \<Rightarrow> JUndefined | Some x \<Rightarrow> JStr x)"

definition content ::
  "AcknowledgedBoard \<Rightarrow> nat \<Rightarrow> string option \<Rightarrow> OpenableEnvelope ContestMap option \<Rightarrow> json"
where
  "content acknowledgeResponse electionId voterId voteEncs =
     JObj [(''acknowledged_at'', JStr (currentTime acknowledgeResponse)),
           (''acknowledged_board_hash'', JStr (currentBoardHash acknowledgeResponse)),
           (''election_id'', JNum electionId),
           (''voter_identifier'', jsonOfString voterId),
           (''votes'', JObj (map (\<lambda>(contestId, c). (contestId, JStr c)) (votesOf voteEncs)))]"

definition contentHashOf ::
  "world \<Rightarrow> AcknowledgedBoard \<Rightarrow> nat \<Rightarrow> string option \<Rightarrow> OpenableEnvelope ContestMap option
     \<Rightarrow> string"
where
  "contentHashOf w acknowledgeResponse electionId voterId voteEncs =
     (let contentString = JSON_stringify w (content acknowledgeResponse electionId voterId voteEncs)
      in hashString w contentString)"

text \<open>
  \<open>signAndSubmitVotes\<close>: the voter identifier and the envelopes are optional because the
  client passes its own, possibly undefined, fields.
\<close>

definition signAndSubmitVotes ::
  "world \<Rightarrow> string option \<Rightarrow> nat \<Rightarrow> OpenableEnvelope ContestMap option \<Rightarrow> string \<Rightarrow> string
     \<Rightarrow> string \<Rightarrow> (error + BallotBoxReceipt) \<times> effect list"
where
  "signAndSubmitVotes w voterId electionId voteEncs privKey signatureKey affidavitData =
     (case acknowledge w of
        Inl e \<Rightarrow> (Inl e, [Network GetBoardHash])
      | Inr acknowledgeResponse \<Rightarrow>
          (let cryptogramsWithProofs = cryptogramsWithProofsOf voteEncs;
               contentHash = contentHashOf w acknowledgeResponse electionId voterId voteEncs;
               voterSignature = sign w contentHash privKey;
               sent = [Network GetBoardHash, Crypto HashString, Crypto GenerateSchnorrSignature,
                       Network SubmitVotes]
           in case submit w contentHash voterSignature cryptogramsWithProofs of
                Inl e \<Rightarrow> (Inl e, sent)
              | Inr receipt \<Rightarrow>
                  (case verifyReceipt w contentHash voterSignature receipt signatureKey of
                     (Inl e, checks) \<Rightarrow> (Inl e, sent @ checks)
                   | (Inr _, checks) \<Rightarrow> (Inr receipt, sent @ checks))))"

section \<open>The client's lifecycle operations (AVClient)\<close>

definition getElectionConfig :: "AVClient \<Rightarrow> error + ElectionConfig" where
  "getElectionConfig this =
     (case electionConfig this of
        None \<Rightarrow> Inl (InvalidStateError ''No configuration loaded. Did you call initialize()?'')
      | Some config \<Rightarrow> Inr config)"

definition initialize :: "world \<Rightarrow> ElectionConfig option \<Rightarrow> AVClient \<Rightarrow> unit outcome" where
  "initialize w configArg this =
     (case (case configArg of
              None \<Rightarrow> (fetchElectionConfig w, [Network GetElectionConfig])
            | Some config \<Rightarrow> (Inr config, [])) of
        (Inl e, log) \<Rightarrow> (Inl e, this, log)
      | (Inr config, log) \<Rightarrow>
          (case validateElectionConfig config of
             Inl e \<Rightarrow> (Inl e, this, log)
           | Inr _ \<Rightarrow> (Inr (), this\<lparr> electionConfig := Some config \<rparr>, log)))"

definition authenticateWithCodes :: "world \<Rightarrow> string list \<Rightarrow> AVClient \<Rightarrow> unit outcome" where
  "authenticateWithCodes w codes this =
     (case getElectionConfig this of
        Inl e \<Rightarrow> (Inl e, this, [])
      | Inr config \<Rightarrow>
          (case authenticate w codes (election_id config) (encryptionKey config) of
             Inl e \<Rightarrow> (Inl e, this, [Network Authenticate])
           | Inr authenticationResponse \<Rightarrow>
               (Inr (),
                this\<lparr> voterIdentifier := Some (au_voterIdentifier authenticationResponse),
                      keyPair := Some (au_keyPair authenticationResponse),
                      emptyCryptograms := Some (au_emptyCryptograms authenticationResponse) \<rparr>,
                [Network Authenticate])))"

definition requestAccessCode :: "world \<Rightarrow> string \<Rightarrow> string \<Rightarrow> AVClient \<Rightarrow> unit outcome" where
  "requestAccessCode w opaqueVoterId emailAddress this =
     (case getElectionConfig this of
        Inl e \<Rightarrow> (Inl e, this, [])
      | Inr config \<Rightarrow>
          (let coordinatorURL = url (voter_authorizer config)
           in case createSession w coordinatorURL opaqueVoterId emailAddress of
                Inl e \<Rightarrow> (Inl e, this, [Network CreateSession])
              | Inr sessionId \<Rightarrow>
                  (Inr (),
                   this\<lparr> authorizationSessionId := Some sessionId,
                         email := Some emailAddress \<rparr>,
                   [Network CreateSession])))"

definition validateAccessCode :: "world \<Rightarrow> string \<Rightarrow> AVClient \<Rightarrow> unit outcome" where
  "validateAccessCode w code this =
     (case ifTruthy (email this) of
        None \<Rightarrow>
          (Inl (InvalidStateError ''Cannot validate access code. Access code was not requested.''),
           this, [])
      | Some emailAddress \<Rightarrow>
          (case getElectionConfig this of
             Inl e \<Rightarrow> (Inl e, this, [])
           | Inr config \<Rightarrow>
               (case requestOTPAuthorization w (url (otp_provider config)) code emailAddress of
                  Inl e \<Rightarrow> (Inl e, this, [Network RequestOTPAuthorization])
                | Inr token \<Rightarrow>
                    (Inr (), this\<lparr> identityConfirmationToken := Some token \<rparr>,
                     [Network RequestOTPAuthorization]))))"

text \<open>
  \<open>registerVoter\<close> stores the fresh key pair in the client before it looks up the
  configuration and before either network step.
\<close>

definition registerVoter :: "world \<Rightarrow> AVClient \<Rightarrow> unit outcome" where
  "registerVoter w this =
     (case ifTruthy (identityConfirmationToken this) of
        None \<Rightarrow>
          (Inl (InvalidStateError
             ''Cannot register voter without identity confirmation. User has not validated access code.''),
           this, [])
      | Some token \<Rightarrow>
          (let newKeyPair = randomKeyPair w;
               this1 = this\<lparr> keyPair := Some newKeyPair \<rparr>
           in case getElectionConfig this1 of
                Inl e \<Rightarrow> (Inl e, this1, [Crypto RandomKeyPair])
              | Inr config \<Rightarrow>
                  (let coordinatorURL = url (voter_authorizer config)
                   in case requestPublicKeyAuthorization w coordinatorURL
                             (authorizationSessionId this1) token (publicKey newKeyPair) of
                        Inl e \<Rightarrow>
                          (Inl e, this1,
                           [Crypto RandomKeyPair, Network RequestPublicKeyAuthorization])
                      | Inr (registrationToken, publicKeyToken) \<Rightarrow>
                          (case bulletinBoardRegisterVoter w newKeyPair (encryptionKey config)
                                  registrationToken publicKeyToken of
                             Inl e \<Rightarrow>
                               (Inl e, this1,
                                [Crypto RandomKeyPair, Network RequestPublicKeyAuthorization,
                                 Network RegisterVoter])
                           | Inr registerVoterResponse \<Rightarrow>
                               (Inr (),
                                this1\<lparr> voterIdentifier :=
                                          Some (rv_voterIdentifier registerVoterResponse),
                                       emptyCryptograms :=
                                          Some (rv_emptyCryptograms registerVoterResponse),
                                       contestIds :=
                                          Some (rv_contestIds registerVoterResponse) \<rparr>,
                                [Crypto RandomKeyPair, Network RequestPublicKeyAuthorization,
                                 Network RegisterVoter])))))"

subsection \<open>Validation of the cast-vote-record\<close>

text \<open>\<open>Number.prototype.toString\<close> on a non-negative integer: its decimal digits.\<close>

definition digitChar :: "nat \<Rightarrow> char" where
  "digitChar d = char_of (48 + d)"

fun toString :: "nat \<Rightarrow> string" where
  "toString n = (if n < 10 then [digitChar n] else toString (n div 10) @ [digitChar (n mod 10)])"

declare toString.simps [simp del]

text \<open>\<open>contests.find(b => b.id.toString() == contestId)\<close>.\<close>

definition findContest :: "Ballot list \<Rightarrow> string \<Rightarrow> Ballot option" where
  "findContest contests contestId =
     find (\<lambda>b. toString (ballot_id b) = contestId) contests"

datatype cvr_validation = Okay | Invalid_contest | Invalid_option

text \<open>
  Modelled from the spec: \<open>validateCvr\<close> of \<open>av_client/cvr_validation\<close>, which is not among
  the sources (only its call in \<open>constructBallotCryptograms\<close> is). The spec: every key of a
  cast-vote-record must reference a configured contest, and every value must reference a
  configured option of that contest; validation identifies whether the contest or the
  option was invalid. An unconfigured contest is reported before an invalid option.
\<close>

definition validateCvr :: "CastVoteRecord \<Rightarrow> Ballot list \<Rightarrow> cvr_validation" where
  "validateCvr cvr contests =
     (if \<not> list_all (\<lambda>(contestId, selection). findContest contests contestId \<noteq> None) cvr
      then Invalid_contest
      else if \<not> list_all (\<lambda>(contestId, selection).
                    case findContest contests contestId of
                      None \<Rightarrow> False
                    | Some contest \<Rightarrow> selection \<in> set (options contest)) cvr
      then Invalid_option
      else Okay)"

subsection \<open>Constructing, spoiling and submitting the ballot\<close>

text \<open>
  \<open>Object.keys(cvr).map(contestId => [contestId, this.emptyCryptograms[contestId].empty_cryptogram])\<close>:
  reading a property of \<open>undefined\<close> throws a \<open>TypeError\<close>.
\<close>

fun emptyCryptogramEntries ::
  "EmptyCryptogram ContestMap option \<Rightarrow> string list \<Rightarrow> error + (string \<times> string) list"
where
  "emptyCryptogramEntries empties [] = Inr []"
| "emptyCryptogramEntries empties (contestId # rest) =
     (case empties of
        None \<Rightarrow> Inl (TypeError contestId)
      | Some obj \<Rightarrow>
          (case map_of obj contestId of
             None \<Rightarrow> Inl (TypeError ''empty_cryptogram'')
           | Some entry \<Rightarrow>
               (case emptyCryptogramEntries empties rest of
                  Inl e \<Rightarrow> Inl e
                | Inr entries \<Rightarrow> Inr ((contestId, empty_cryptogram entry) # entries))))"

fun contestEncodingTypeEntries ::
  "Ballot list \<Rightarrow> string list \<Rightarrow> error + (string \<times> nat) list"
where
  "contestEncodingTypeEntries contests [] = Inr []"
| "contestEncodingTypeEntries contests (contestId # rest) =
     (case findContest contests contestId of
        None \<Rightarrow> Inl (TypeError ''vote_encoding_type'')
      | Some contest \<Rightarrow>
          (case contestEncodingTypeEntries contests rest of
             Inl e \<Rightarrow> Inl e
           | Inr entries \<Rightarrow> Inr ((contestId, vote_encoding_type contest) # entries)))"

text \<open>
  \<open>extractCryptograms\<close> visits every contest of the envelopes once and keeps the
  \<open>cryptogram\<close> property of its envelope.
\<close>

definition extractCryptograms :: "OpenableEnvelope ContestMap \<Rightarrow> string ContestMap" where
  "extractCryptograms envelopes =
     fromEntries (map (\<lambda>(contestId, envelope). (contestId, cryptogram envelope)) envelopes)"

definition constructBallotCryptograms ::
  "world \<Rightarrow> CastVoteRecord \<Rightarrow> AVClient \<Rightarrow> string outcome"
where
  "constructBallotCryptograms w cvr this =
     (if \<not> (truthyString (voterIdentifier this) \<or> truthyObject (emptyCryptograms this)
             \<or> truthyObject (contestIds this))
      then
        (Inl (InvalidStateError
           ''Cannot construct ballot cryptograms. Voter registration not completed successfully''),
         this, [])
      else
        (case getElectionConfig this of
           Inl e \<Rightarrow> (Inl e, this, [])
         | Inr config \<Rightarrow>
             (let contests = ballots config
              in case validateCvr cvr contests of
                   Invalid_contest \<Rightarrow>
                     (Inl (CorruptCvrError ''Corrupt CVR: Contains invalid contest''), this, [])
                 | Invalid_option \<Rightarrow>
                     (Inl (CorruptCvrError ''Corrupt CVR: Contains invalid option''), this, [])
                 | Okay \<Rightarrow>
                     (case emptyCryptogramEntries (emptyCryptograms this) (objKeys cvr) of
                        Inl e \<Rightarrow> (Inl e, this, [])
                      | Inr emptyEntries \<Rightarrow>
                          (case contestEncodingTypeEntries contests (objKeys cvr) of
                             Inl e \<Rightarrow> (Inl e, this, [])
                           | Inr typeEntries \<Rightarrow>
                               (case encrypt w cvr (fromEntries emptyEntries)
                                       (fromEntries typeEntries) (encryptionKey config) of
                                  Inl e \<Rightarrow> (Inl e, this, [Crypto Encrypt])
                                | Inr envelopes \<Rightarrow>
                                    (let trackingCode =
                                           fingerprint w (extractCryptograms envelopes)
                                     in (Inr trackingCode,
                                         this\<lparr> voteEncryptions := Some envelopes \<rparr>,
                                         [Crypto Encrypt, Crypto Fingerprint]))))))))"

definition generateTestCode :: "world \<Rightarrow> AVClient \<Rightarrow> unit outcome" where
  "generateTestCode w this =
     (Inr (), this\<lparr> testCode := Some (newTestCode w) \<rparr>, [Crypto GenerateTestCode])"

definition spoilBallotCryptograms :: "AVClient \<Rightarrow> unit outcome" where
  "spoilBallotCryptograms this = (Inl (Error ''Not implemented yet''), this, [])"

text \<open>
  \<open>submitBallotCryptograms\<close> hands the client's fields to \<open>signAndSubmitVotes\<close> (the
  arguments are matched by their role: the envelopes, the voter's private key, the election's
  signing public key and the encrypted affidavit).
\<close>

definition submitBallotCryptograms ::
  "world \<Rightarrow> string \<Rightarrow> AVClient \<Rightarrow> BallotBoxReceipt outcome"
where
  "submitBallotCryptograms w affidavitDoc this =
     (if \<not> (truthyString (voterIdentifier this) \<or> truthyObject (voteEncryptions this))
      then
        (Inl (InvalidStateError
           ''Cannot submit cryptograms. Voter identity unknown or no open envelopes''),
         this, [])
      else
        (case getElectionConfig this of
           Inl e \<Rightarrow> (Inl e, this, [])
         | Inr config \<Rightarrow>
             (case keyPair this of
                None \<Rightarrow> (Inl (TypeError ''privateKey''), this, [])
              | Some keys \<Rightarrow>
                  (let encryptedAffidavit = encryptAffidavit w affidavitDoc (affidavit config)
                   in case signAndSubmitVotes w (voterIdentifier this) (election_id config)
                             (voteEncryptions this) (privateKey keys) (signingPublicKey config)
                             encryptedAffidavit of
                        (result, calls) \<Rightarrow> (result, this, Crypto EncryptAffidavit # calls)))))"

section \<open>Hex input validation (crypto utilities)\<close>

text \<open>
  A JavaScript string is modelled as a \<open>string\<close>, a list of characters. The character
  class \<open>[0-9A-Fa-f]\<close> of the regular expression is given by the ranges of character
  codes. (Characters beyond the 8-bit range of \<open>char\<close> are not represented; the validator
  rejects them like any other character outside the class.)
\<close>

definition hexClass :: "char \<Rightarrow> bool" where
  "hexClass c =
     (let n = (of_char c :: nat)
      in (48 \<le> n \<and> n \<le> 57) \<or> (65 \<le> n \<and> n \<le> 70) \<or> (97 \<le> n \<and> n \<le> 102))"

text \<open>
  \<open>test.match(/^[0-9A-Fa-f]+$/) !== null\<close>: the whole string, anchored at both ends, is one
  or more characters of the class.
\<close>

fun matchHexPlus :: "string \<Rightarrow> bool" where
  "matchHexPlus [] = False"
| "matchHexPlus [c] = hexClass c"
| "matchHexPlus (c # cs) = (hexClass c \<and> matchHexPlus cs)"

definition isValidHexString :: "string \<Rightarrow> bool" where
  "isValidHexString test =
     (if length test mod 2 \<noteq> 0 then False else matchHexPlus test)"

section \<open>Sequences of calls on one client\<close>

text \<open>
  A caller drives the client by a sequence of calls; \<open>perform\<close> dispatches one call and
  \<open>runCalls\<close> records, for every call, the client before it, what it returned and the
  calls it made.
\<close>

datatype call =
    CallInitialize "ElectionConfig option"
  | CallAuthenticateWithCodes "string list"
  | CallRequestAccessCode string string
  | CallValidateAccessCode string
  | CallRegisterVoter
  | CallConstructBallotCryptograms CastVoteRecord
  | CallGenerateTestCode
  | CallSpoilBallotCryptograms
  | CallSubmitBallotCryptograms string

datatype returned = Undefined | TrackingCode string | Receipt BallotBoxReceipt

fun returning :: "('a \<Rightarrow> returned) \<Rightarrow> 'a outcome \<Rightarrow> returned outcome" where
  "returning f (Inl e, this, calls) = (Inl e, this, calls)"
| "returning f (Inr v, this, calls) = (Inr (f v), this, calls)"

fun perform :: "world \<Rightarrow> call \<Rightarrow> AVClient \<Rightarrow> returned outcome" where
  "perform w (CallInitialize config) this = returning (\<lambda>u. Undefined) (initialize w config this)"
| "perform w (CallAuthenticateWithCodes codes) this =
     returning (\<lambda>u. Undefined) (authenticateWithCodes w codes this)"
| "perform w (CallRequestAccessCode opaqueVoterId emailAddress) this =
     returning (\<lambda>u. Undefined) (requestAccessCode w opaqueVoterId emailAddress this)"
| "perform w (CallValidateAccessCode code) this =
     returning (\<lambda>u. Undefined) (validateAccessCode w code this)"
| "perform w CallRegisterVoter this = returning (\<lambda>u. Undefined) (registerVoter w this)"
| "perform w (CallConstructBallotCryptograms cvr) this =
     returning TrackingCode (constructBallotCryptograms w cvr this)"
| "perform w CallGenerateTestCode this = returning (\<lambda>u. Undefined) (generateTestCode w this)"
| "perform w CallSpoilBallotCryptograms this =
     returning (\<lambda>u. Undefined) (spoilBallotCryptograms this)"
| "perform w (CallSubmitBallotCryptograms affidavitDoc) this =
     returning Receipt (submitBallotCryptograms w affidavitDoc this)"

fun runCalls ::
  "world \<Rightarrow> call list \<Rightarrow> AVClient \<Rightarrow> (AVClient \<times> call \<times> (error + returned) \<times> effect list) list"
where
  "runCalls w [] this = []"
| "runCalls w (c # cs) this =
     (case perform w c this of
        (result, this', calls) \<Rightarrow> (this, c, result, calls) # runCalls w cs this')"

fun isNetwork :: "effect \<Rightarrow> bool" where
  "isNetwork (Network s) = True"
| "isNetwork (Crypto c) = False"

text \<open>
  The operations that read the election configuration, the prerequisite each of them checks
  first, and the message of that check.
\<close>

fun needsConfiguration :: "call \<Rightarrow> bool" where
  "needsConfiguration (CallRequestAccessCode opaqueVoterId emailAddress) = True"
| "needsConfiguration (CallValidateAccessCode code) = True"
| "needsConfiguration CallRegisterVoter = True"
| "needsConfiguration (CallConstructBallotCryptograms cvr) = True"
| "needsConfiguration (CallSubmitBallotCryptograms affidavitDoc) = True"
| "needsConfiguration c = False"

fun prerequisiteMet :: "call \<Rightarrow> AVClient \<Rightarrow> bool" where
  "prerequisiteMet (CallValidateAccessCode code) this = truthyString (email this)"
| "prerequisiteMet CallRegisterVoter this = truthyString (identityConfirmationToken this)"
| "prerequisiteMet (CallConstructBallotCryptograms cvr) this =
     (truthyString (voterIdentifier this) \<or> truthyObject (emptyCryptograms this)
      \<or> truthyObject (contestIds this))"
| "prerequisiteMet (CallSubmitBallotCryptograms affidavitDoc) this =
     (truthyString (voterIdentifier this) \<or> truthyObject (voteEncryptions this))"
| "prerequisiteMet c this = True"

fun prerequisiteMessage :: "call \<Rightarrow> string" where
  "prerequisiteMessage (CallValidateAccessCode code) =
     ''Cannot validate access code. Access code was not requested.''"
| "prerequisiteMessage CallRegisterVoter =
     ''Cannot register voter without identity confirmation. User has not validated access code.''"
| "prerequisiteMessage (CallConstructBallotCryptograms cvr) =
     ''Cannot construct ballot cryptograms. Voter registration not completed successfully''"
| "prerequisiteMessage (CallSubmitBallotCryptograms affidavitDoc) =
     ''Cannot submit cryptograms. Voter identity unknown or no open envelopes''"
| "prerequisiteMessage c = []"

section \<open>The spoil path: combining and decrypting cryptograms\<close>

text \<open>
  The points of the elliptic curve form an abelian group, written additively. Point
  arithmetic is a primitive of the cryptographic library, so the model is stated for every
  type of class \<open>ab_group_add\<close>; a scalar is a natural number. A cryptogram is a pair of
  points; its hex wire form (\<open>fromString\<close>, \<open>toString\<close>) is not modelled.
\<close>

type_synonym 'p PointCryptogram = "'p \<times> 'p"






subsection \<open>Objects built from an array of entries\<close>

text \<open>
  \<open>Object.fromEntries\<close> over an array that is not the key list of an existing object: the
  assignments are made in order, and the resulting object enumerates its array-index keys
  (the decimal forms of the integers below \<open>2^32 - 1\<close>) first, in ascending numeric order,
  and then its other keys in the order of their first assignment.
\<close>

definition isDigit :: "char \<Rightarrow> bool" where
  "isDigit c = (48 \<le> (of_char c :: int) \<and> (of_char c :: int) \<le> 57)"

definition indexValue :: "string \<Rightarrow> int" where
  "indexValue key = foldl (\<lambda>acc c. acc * 10 + ((of_char c :: int) - 48)) 0 key"

definition isArrayIndex :: "string \<Rightarrow> bool" where
  "isArrayIndex key =
     (key \<noteq> [] \<and> list_all isDigit key \<and> (length key = 1 \<or> hd key \<noteq> CHR ''0'')
      \<and> indexValue key < 4294967295)"

definition enumeration :: "'a ContestMap \<Rightarrow> 'a ContestMap" where
  "enumeration obj =
     sort_key (\<lambda>(k, v). indexValue k) (filter (\<lambda>(k, v). isArrayIndex k) obj)
     @ filter (\<lambda>(k, v). \<not> isArrayIndex k) obj"

definition objectFromEntries :: "(string \<times> 'a) list \<Rightarrow> 'a ContestMap" where
  "objectFromEntries entries = enumeration (fromEntries entries)"

subsection \<open>The helpers of the decryption test\<close>

record 'p ContestEnvelope =
  reference :: string
  cryptograms :: "'p PointCryptogram list"
  randomizers :: "nat list"







subsection \<open>Contest configuration and the encoding of a selection\<close>





















subsection \<open>Valid records and matching configurations\<close>





section \<open>A concrete election, used to run the model\<close>

text \<open>
  A small executable instance of the collaborators: a two-contest election as in the
  repository's tests (contests \<open>1\<close> and \<open>2\<close>), services that answer every request, and
  toy stand-ins for the cryptographic library. The bulletin board of \<open>demoWorld\<close> is honest:
  it chains the board hash over the submitted content hash and signs the receipt.
\<close>

fun demoStringify :: "json \<Rightarrow> string" where
  "demoStringify JUndefined = ''undefined''"
| "demoStringify (JStr v) = ''<'' @ v @ ''>''"
| "demoStringify (JNum n) = toString n"
| "demoStringify (JObj kvs) =
     ''{'' @ concat (map (\<lambda>(k, v). k @ '':'' @ demoStringify v @ '';'') kvs) @ ''}''"

definition demoHash :: "string \<Rightarrow> string" where
  "demoHash v = ''#'' @ toString (length v) @ rev v"

definition demoConfig :: ElectionConfig where
  "demoConfig =
     \<lparr> encryptionKey = ''03ee'', signingPublicKey = ''03bb'', election_id = 1,
       ballots =
         [\<lparr> ballot_id = 1, vote_encoding_type = 0, options = [''option1'', ''option2''] \<rparr>,
          \<lparr> ballot_id = 2, vote_encoding_type = 0, options = [''optiona'', ''optionb''] \<rparr>],
       affidavit = \<lparr> curve = ''k256'', affidavitEncryptionKey = ''03e9'' \<rparr>,
       voter_authorizer =
         \<lparr> url = ''http://localhost:1234'', election_context_uuid = ''uuid-va'',
           public_key = ''03va'' \<rparr>,
       otp_provider =
         \<lparr> url = ''http://localhost:1111'', election_context_uuid = ''uuid-otp'',
           public_key = ''03fa'' \<rparr> \<rparr>"

definition demoReceipt :: "string \<Rightarrow> string \<Rightarrow> BallotBoxReceipt" where
  "demoReceipt contentHash voterSignature =
     (let chained =
            \<lparr> previousBoardHash = ''b0'', boardHash = [],
              registeredAt = ''2020-03-01T10:00:00.000+01:00'', serverSignature = [],
              voteSubmissionId = 6 \<rparr>;
          hashed = chained\<lparr> boardHash := demoHash (demoStringify (boardHashObject contentHash chained)) \<rparr>
      in hashed\<lparr> serverSignature :=
                   ''03bb'' @ demoHash (demoStringify (receiptHashObject voterSignature hashed)) \<rparr>)"

definition demoWorld :: world where
  "demoWorld =
     \<lparr> fetchElectionConfigData = Inr demoConfig,
       authenticate = (\<lambda>codes electionId key. Inl (NetworkError ''Request failed with status code 404'')),
       createSession = (\<lambda>coordinatorURL opaqueVoterId emailAddress. Inr ''session-1''),
       requestOTPAuthorization = (\<lambda>providerURL code emailAddress. Inr ''token-1''),
       requestPublicKeyAuthorization =
         (\<lambda>coordinatorURL sessionId token pubKey. Inr (''registration-token'', ''public-key-token'')),
       bulletinBoardRegisterVoter =
         (\<lambda>keys key registrationToken publicKeyToken.
            Inr \<lparr> rv_voterIdentifier = ''voter-1'',
                  rv_emptyCryptograms =
                    [(''1'', \<lparr> empty_cryptogram = ''02a1,03a2'' \<rparr>),
                     (''2'', \<lparr> empty_cryptogram = ''02b1,03b2'' \<rparr>)],
                  rv_contestIds = [1, 2] \<rparr>),
       getBoardHash =
         Inr \<lparr> data_currentBoardHash = Some ''b0'',
               data_currentTime = Some ''2020-03-01T09:59:00.000+01:00'' \<rparr>,
       submitVotes =
         (\<lambda>contentHash voterSignature cryptogramsWithProofs.
            Inr (SubmitReceipt (demoReceipt contentHash voterSignature))),
       randomKeyPair = \<lparr> privateKey = ''5e4d'', publicKey = ''03cc'' \<rparr>,
       encrypt =
         (\<lambda>cvr empties encodingTypes key.
            Inr (map (\<lambda>(contestId, selection).
                        (contestId,
                         \<lparr> cryptogram = ''c:'' @ selection, randomness = ''r:'' @ contestId,
                           proof' = ''p:'' @ contestId \<rparr>)) cvr)),
       fingerprint = (\<lambda>cryptograms. demoHash (concat (map snd cryptograms))),
       newTestCode = ''7e57'',
       encryptAffidavit = (\<lambda>doc config. rev doc),
       hashString = demoHash,
       JSON_stringify = demoStringify,
       generateSchnorrSignature = (\<lambda>contentHash privKey. privKey @ contentHash),
       verifySchnorrSignature =
         (\<lambda>signature hashed signatureKey. signature = signatureKey @ hashed) \<rparr>"

text \<open>A bulletin board that reports a board hash it did not compute from the content.\<close>

definition forgingWorld :: world where
  "forgingWorld =
     demoWorld\<lparr> submitVotes :=
       (\<lambda>contentHash voterSignature cryptogramsWithProofs.
          Inr (SubmitReceipt ((demoReceipt contentHash voterSignature)\<lparr> boardHash := ''b1'' \<rparr>))) \<rparr>"

text \<open>A bulletin board whose receipt carries a signature that is not the election's.\<close>

definition unsignedWorld :: world where
  "unsignedWorld =
     demoWorld\<lparr> submitVotes :=
       (\<lambda>contentHash voterSignature cryptogramsWithProofs.
          Inr (SubmitReceipt ((demoReceipt contentHash voterSignature)\<lparr> serverSignature := ''00'' \<rparr>))) \<rparr>"

text \<open>A voter authorization coordinator that is unreachable.\<close>

definition offlineWorld :: world where
  "offlineWorld =
     demoWorld\<lparr> requestPublicKeyAuthorization :=
       (\<lambda>coordinatorURL sessionId token pubKey.
          Inl (NetworkError ''Request failed with status code 500'')) \<rparr>"

text \<open>The client after \<open>initialize\<close>, after \<open>validateAccessCode\<close> and after \<open>registerVoter\<close>.\<close>

definition initializedClient :: AVClient where
  "initializedClient = newAVClient\<lparr> electionConfig := Some demoConfig \<rparr>"

definition validatedClient :: AVClient where
  "validatedClient =
     initializedClient\<lparr> authorizationSessionId := Some ''session-1'',
                        email := Some ''voter@foo.bar'',
                        identityConfirmationToken := Some ''token-1'' \<rparr>"

definition registeredClient :: AVClient where
  "registeredClient =
     validatedClient\<lparr> keyPair := Some \<lparr> privateKey = ''5e4d'', publicKey = ''03cc'' \<rparr>,
                      voterIdentifier := Some ''voter-1'',
                      emptyCryptograms :=
                        Some [(''1'', \<lparr> empty_cryptogram = ''02a1,03a2'' \<rparr>),
                              (''2'', \<lparr> empty_cryptogram = ''02b1,03b2'' \<rparr>)],
                      contestIds := Some [1, 2] \<rparr>"

definition demoCvr :: CastVoteRecord where
  "demoCvr = [(''1'', ''option1''), (''2'', ''optiona'')]"

definition demoEnvelopes :: "OpenableEnvelope ContestMap" where
  "demoEnvelopes =
     [(''1'', \<lparr> cryptogram = ''c:option1'', randomness = ''r:1'', proof' = ''p:1'' \<rparr>),
      (''2'', \<lparr> cryptogram = ''c:optiona'', randomness = ''r:2'', proof' = ''p:2'' \<rparr>)]"

definition demoAcknowledged :: AcknowledgedBoard where
  "demoAcknowledged =
     \<lparr> currentBoardHash = ''b0'', currentTime = ''2020-03-01T09:59:00.000+01:00'' \<rparr>"






section \<open>Properties of dictionaries\<close>

lemma objSet_fresh: "k \<notin> fst ` set obj \<Longrightarrow> objSet k v obj = obj @ [(k, v)]"
  by (induction obj) auto

lemma foldl_objSet_distinct:
  "distinct (map fst es) \<Longrightarrow> fst ` set acc \<inter> fst ` set es = {} \<Longrightarrow>
   foldl (\<lambda>obj (k, v). objSet k (f v) obj) acc es = acc @ map (\<lambda>(k, v). (k, f v)) es"
proof (induction es arbitrary: acc)
  case Nil
  then show ?case by simp
next
  case (Cons e es)
  obtain k v where e: "e = (k, v)" by (cases e)
  have fresh: "k \<notin> fst ` set acc" using Cons.prems(2) e by auto
  have step: "objSet k (f v) acc = acc @ [(k, f v)]" using fresh by (rule objSet_fresh)
  have d: "distinct (map fst es)" using Cons.prems(1) by simp
  have disj: "fst ` set (acc @ [(k, f v)]) \<inter> fst ` set es = {}"
    using Cons.prems e by auto
  show ?case using Cons.IH[OF d disj] e step by simp
qed

lemma fromEntries_distinct: "distinct (map fst es) \<Longrightarrow> fromEntries es = es"
  using foldl_objSet_distinct[of es "[]" "\<lambda>v. v"] by (simp add: fromEntries_def)

lemma votesOf_distinct:
  "distinct (map fst encs) \<Longrightarrow> votesOf (Some encs) = map (\<lambda>(k, e). (k, cryptogram e)) encs"
  using foldl_objSet_distinct[of encs "[]" cryptogram] by (simp add: votesOf_def forInEntries_def)

lemma cryptogramsWithProofsOf_distinct:
  "distinct (map fst encs) \<Longrightarrow>
   cryptogramsWithProofsOf (Some encs) =
     map (\<lambda>(k, e). (k, \<lparr> cwp_cryptogram = cryptogram e, cwp_proof = proof' e \<rparr>)) encs"
  using foldl_objSet_distinct[of encs "[]" "\<lambda>e. \<lparr> cwp_cryptogram = cryptogram e, cwp_proof = proof' e \<rparr>"]
  by (simp add: cryptogramsWithProofsOf_def forInEntries_def)

lemma votesOf_ignores_proofs:
  "votesOf (Some (map (\<lambda>(k, e). (k, e\<lparr> randomness := r k e, proof' := p k e \<rparr>)) encs)) = votesOf (Some encs)"
proof -
  have "foldl (\<lambda>votes (contestId, enc). objSet contestId (cryptogram enc) votes) acc
          (map (\<lambda>(k, e). (k, e\<lparr> randomness := r k e, proof' := p k e \<rparr>)) encs)
        = foldl (\<lambda>votes (contestId, enc). objSet contestId (cryptogram enc) votes) acc encs" for acc
    by (induction encs arbitrary: acc) auto
  then show ?thesis by (simp add: votesOf_def forInEntries_def)
qed

section \<open>Hex input validation\<close>

lemma hexClass_iff: "hexClass c \<longleftrightarrow> c \<in> set ''0123456789ABCDEFabcdef''"
proof -
  obtain n where n: "n = (of_char c :: nat)" by simp
  have c: "c = char_of n" using n by simp
  show ?thesis
  proof
    assume "hexClass c"
    then have "n \<in> {48..57} \<union> {65..70} \<union> {97..102}"
      using n by (auto simp: hexClass_def Let_def)
    then have "n \<in> {48,49,50,51,52,53,54,55,56,57,65,66,67,68,69,70,97,98,99,100,101,102}"
      by (auto simp: numeral_eq_Suc le_Suc_eq)
    then show "c \<in> set ''0123456789ABCDEFabcdef''"
      unfolding c by (elim insertE emptyE) (simp_all add: char_of_def bit_Suc_0_iff)
  next
    assume "c \<in> set ''0123456789ABCDEFabcdef''"
    then show "hexClass c" by (auto simp: hexClass_def)
  qed
qed

lemma matchHexPlus_iff: "matchHexPlus s \<longleftrightarrow> s \<noteq> [] \<and> list_all hexClass s"
  by (induction s rule: matchHexPlus.induct) auto

text \<open>
  Claim C9, as the code has it: \<open>isValidHexString\<close> accepts a string exactly when it is
  not empty, has even length and every character is one of \<open>0-9\<close>, \<open>A-F\<close>, \<open>a-f\<close>. (The
  \<open>+\<close> of the regular expression asks for at least one character.)
\<close>

theorem isValidHexString_iff:
  "isValidHexString s \<longleftrightarrow>
     s \<noteq> [] \<and> even (length s) \<and> (\<forall>c \<in> set s. c \<in> set ''0123456789ABCDEFabcdef'')"
  by (simp add: isValidHexString_def matchHexPlus_iff list_all_iff hexClass_iff even_iff_mod_2_eq_zero)

text \<open>A hex string is accepted; one of odd length and one with another character are not.\<close>

theorem isValidHexString_witness:
  "isValidHexString ''03e9858B'' \<and> \<not> isValidHexString ''03e'' \<and> \<not> isValidHexString ''0g''"
  using isValidHexString_iff[of "''03e9858B''"] isValidHexString_iff[of "''03e''"]
    isValidHexString_iff[of "''0g''"]
  by simp

text \<open>
  The empty string has even length and no character outside the class, and is rejected: the
  equivalence without "not empty" fails.
\<close>

theorem isValidHexString_empty_counterexample:
  "even (length ([] :: string)) \<and> list_all (\<lambda>c. c \<in> set ''0123456789ABCDEFabcdef'') []
   \<and> \<not> isValidHexString []"
  by (simp add: isValidHexString_def)

section \<open>Receipt verification\<close>

lemma verifyReceipt_result:
  "fst (verifyReceipt w contentHash voterSignature receipt signatureKey) =
     (if hashString w (JSON_stringify w (boardHashObject contentHash receipt)) \<noteq> boardHash receipt
      then Inl (Rejection ''Invalid vote receipt: corrupt board hash'')
      else if \<not> verifySchnorrSignature w (serverSignature receipt)
                  (hashString w (JSON_stringify w (receiptHashObject voterSignature receipt)))
                  signatureKey
      then Inl (Rejection ''Invalid vote receipt: corrupt server signature'')
      else Inr ())"
  by (simp add: verifyReceipt_def Let_def)

lemma signAndSubmitVotes_after_submit:
  assumes "acknowledge w = Inr ackd"
    and "submit w (contentHashOf w ackd eid vid encs) (sign w (contentHashOf w ackd eid vid encs) priv)
           (cryptogramsWithProofsOf encs) = Inr receipt"
  shows "fst (signAndSubmitVotes w vid eid encs priv sigKey aff) =
           (case fst (verifyReceipt w (contentHashOf w ackd eid vid encs)
                        (sign w (contentHashOf w ackd eid vid encs) priv) receipt sigKey) of
              Inl e \<Rightarrow> Inl e | Inr _ \<Rightarrow> Inr receipt)"
  using assms by (simp add: signAndSubmitVotes_def Let_def split: prod.splits sum.splits)

lemma demo_board_hash_chained:
  "hashString demoWorld (JSON_stringify demoWorld
      (JObj [(''content_hash'', JStr ch),
             (''previous_board_hash'', JStr (previousBoardHash (demoReceipt ch sg))),
             (''registered_at'', JStr (registeredAt (demoReceipt ch sg)))]))
   = boardHash (demoReceipt ch sg)"
  by (simp add: demoWorld_def demoReceipt_def boardHashObject_def Let_def)

lemma demo_receipt_signed:
  "verifySchnorrSignature demoWorld (serverSignature (demoReceipt ch sg))
     (hashString demoWorld (JSON_stringify demoWorld
        (JObj [(''board_hash'', JStr (boardHash (demoReceipt ch sg))),
               (''signature'', JStr sg)]))) ''03bb''"
  by (simp add: demoWorld_def demoReceipt_def boardHashObject_def receiptHashObject_def Let_def)

text \<open>
  Claim C3: after the bulletin board has answered a submission with a receipt, if the hash
  recomputed from \<open>{content_hash, previous_board_hash, registered_at}\<close> differs from the
  reported \<open>boardHash\<close>, \<open>signAndSubmitVotes\<close> fails with the corrupt-board-hash rejection;
  otherwise, if the server signature does not verify against the hash of
  \<open>{board_hash, signature}\<close> under the signing public key, it fails with the
  corrupt-server-signature rejection; it returns the receipt when both checks pass, and only
  then.
\<close>

theorem receipt_verification:
  assumes ack: "acknowledge w = Inr ackd"
    and sub: "submit w (contentHashOf w ackd eid vid encs)
                (sign w (contentHashOf w ackd eid vid encs) priv)
                (cryptogramsWithProofsOf encs) = Inr receipt"
  shows
    "(let contentHash = contentHashOf w ackd eid vid encs;
          voterSignature = sign w contentHash priv;
          recomputedBoardHash =
            hashString w (JSON_stringify w
              (JObj [(''content_hash'', JStr contentHash),
                     (''previous_board_hash'', JStr (previousBoardHash receipt)),
                     (''registered_at'', JStr (registeredAt receipt))]));
          receiptHash =
            hashString w (JSON_stringify w
              (JObj [(''board_hash'', JStr (boardHash receipt)),
                     (''signature'', JStr voterSignature)]));
          returned = fst (signAndSubmitVotes w vid eid encs priv sigKey aff)
      in (recomputedBoardHash \<noteq> boardHash receipt \<longrightarrow>
            returned = Inl (Rejection ''Invalid vote receipt: corrupt board hash''))
       \<and> (recomputedBoardHash = boardHash receipt
            \<and> \<not> verifySchnorrSignature w (serverSignature receipt) receiptHash sigKey \<longrightarrow>
            returned = Inl (Rejection ''Invalid vote receipt: corrupt server signature''))
       \<and> (recomputedBoardHash = boardHash receipt
            \<and> verifySchnorrSignature w (serverSignature receipt) receiptHash sigKey \<longrightarrow>
            returned = Inr receipt)
       \<and> (\<forall>r. returned = Inr r \<longrightarrow>
            r = receipt \<and> recomputedBoardHash = boardHash receipt
            \<and> verifySchnorrSignature w (serverSignature receipt) receiptHash sigKey))"
  unfolding Let_def signAndSubmitVotes_after_submit[OF ack sub] verifyReceipt_result
  by (simp add: boardHashObject_def receiptHashObject_def)

text \<open>
  An honest bulletin board's receipt is returned; a receipt with a foreign board hash and one
  with a foreign signature are rejected with the two errors.
\<close>

theorem receipt_verification_witness:
  "fst (signAndSubmitVotes demoWorld (Some ''voter-1'') 1 (Some demoEnvelopes) ''5e4d'' ''03bb'' ''doc'')
     = Inr (demoReceipt (contentHashOf demoWorld demoAcknowledged 1 (Some ''voter-1'') (Some demoEnvelopes))
              (sign demoWorld (contentHashOf demoWorld demoAcknowledged 1 (Some ''voter-1'') (Some demoEnvelopes)) ''5e4d''))
   \<and> fst (signAndSubmitVotes forgingWorld (Some ''voter-1'') 1 (Some demoEnvelopes) ''5e4d'' ''03bb'' ''doc'')
     = Inl (Rejection ''Invalid vote receipt: corrupt board hash'')
   \<and> fst (signAndSubmitVotes unsignedWorld (Some ''voter-1'') 1 (Some demoEnvelopes) ''5e4d'' ''03bb'' ''doc'')
     = Inl (Rejection ''Invalid vote receipt: corrupt server signature'')"
proof -
  let ?ch = "\<lambda>w. contentHashOf w demoAcknowledged 1 (Some ''voter-1'') (Some demoEnvelopes)"
  let ?sg = "\<lambda>w. sign w (?ch w) ''5e4d''"
  let ?forged = "(demoReceipt (?ch forgingWorld) (?sg forgingWorld))\<lparr> boardHash := ''b1'' \<rparr>"
  let ?unsigned = "(demoReceipt (?ch unsignedWorld) (?sg unsignedWorld))\<lparr> serverSignature := ''00'' \<rparr>"
  have ack1: "acknowledge demoWorld = Inr demoAcknowledged"
    by (simp add: acknowledge_def demoWorld_def demoAcknowledged_def)
  have ack2: "acknowledge forgingWorld = Inr demoAcknowledged"
    by (simp add: acknowledge_def demoWorld_def forgingWorld_def demoAcknowledged_def)
  have ack3: "acknowledge unsignedWorld = Inr demoAcknowledged"
    by (simp add: acknowledge_def demoWorld_def unsignedWorld_def demoAcknowledged_def)
  have sub1: "submit demoWorld (?ch demoWorld) (?sg demoWorld)
                (cryptogramsWithProofsOf (Some demoEnvelopes))
              = Inr (demoReceipt (?ch demoWorld) (?sg demoWorld))"
    by (simp add: submit_def demoWorld_def)
  have sub2: "submit forgingWorld (?ch forgingWorld) (?sg forgingWorld)
                (cryptogramsWithProofsOf (Some demoEnvelopes)) = Inr ?forged"
    by (simp add: submit_def forgingWorld_def)
  have sub3: "submit unsignedWorld (?ch unsignedWorld) (?sg unsignedWorld)
                (cryptogramsWithProofsOf (Some demoEnvelopes)) = Inr ?unsigned"
    by (simp add: submit_def unsignedWorld_def)
  have forged: "hashString forgingWorld (JSON_stringify forgingWorld
      (JObj [(''content_hash'', JStr (?ch forgingWorld)),
             (''previous_board_hash'', JStr (previousBoardHash ?forged)),
             (''registered_at'', JStr (registeredAt ?forged))])) \<noteq> boardHash ?forged"
    by (simp add: forgingWorld_def demoWorld_def demoHash_def)
  have chained: "hashString unsignedWorld (JSON_stringify unsignedWorld
      (JObj [(''content_hash'', JStr (?ch unsignedWorld)),
             (''previous_board_hash'', JStr (previousBoardHash ?unsigned)),
             (''registered_at'', JStr (registeredAt ?unsigned))])) = boardHash ?unsigned"
    by (simp add: unsignedWorld_def demoWorld_def demoReceipt_def boardHashObject_def Let_def)
  have unsigned: "\<not> verifySchnorrSignature unsignedWorld (serverSignature ?unsigned)
     (hashString unsignedWorld (JSON_stringify unsignedWorld
        (JObj [(''board_hash'', JStr (boardHash ?unsigned)),
               (''signature'', JStr (?sg unsignedWorld))]))) ''03bb''"
    by (simp add: unsignedWorld_def demoWorld_def)
  have r1: "fst (signAndSubmitVotes demoWorld (Some ''voter-1'') 1 (Some demoEnvelopes) ''5e4d'' ''03bb'' ''doc'')
     = Inr (demoReceipt (?ch demoWorld) (?sg demoWorld))"
    using receipt_verification[OF ack1 sub1, of "''03bb''" "''doc''", unfolded Let_def]
      demo_board_hash_chained demo_receipt_signed
    by blast
  have r2: "fst (signAndSubmitVotes forgingWorld (Some ''voter-1'') 1 (Some demoEnvelopes) ''5e4d'' ''03bb'' ''doc'')
     = Inl (Rejection ''Invalid vote receipt: corrupt board hash'')"
    using receipt_verification[OF ack2 sub2, of "''03bb''" "''doc''", unfolded Let_def] forged
    by blast
  have r3: "fst (signAndSubmitVotes unsignedWorld (Some ''voter-1'') 1 (Some demoEnvelopes) ''5e4d'' ''03bb'' ''doc'')
     = Inl (Rejection ''Invalid vote receipt: corrupt server signature'')"
    using receipt_verification[OF ack3 sub3, of "''03bb''" "''doc''", unfolded Let_def] chained unsigned
    by blast
  show ?thesis using r1 r2 r3 by blast
qed

section \<open>The signed content of a submission\<close>

lemma content_ignores_proofs:
  "content ackd eid vid (Some (map (\<lambda>(k, e). (k, e\<lparr> randomness := r k e, proof' := p k e \<rparr>)) encs))
   = content ackd eid vid (Some encs)"
  by (simp add: content_def votesOf_ignores_proofs)

lemma signAndSubmitVotes_after_acknowledge:
  assumes "acknowledge w = Inr ackd"
  shows "fst (signAndSubmitVotes w vid eid encs priv sigKey aff) =
     (case submit w (contentHashOf w ackd eid vid encs)
             (sign w (contentHashOf w ackd eid vid encs) priv) (cryptogramsWithProofsOf encs) of
        Inl e \<Rightarrow> Inl e
      | Inr receipt \<Rightarrow>
          (case fst (verifyReceipt w (contentHashOf w ackd eid vid encs)
                       (sign w (contentHashOf w ackd eid vid encs) priv) receipt sigKey) of
             Inl e \<Rightarrow> Inl e
           | Inr u \<Rightarrow> Inr receipt))"
  using assms by (simp add: signAndSubmitVotes_def Let_def split: prod.splits sum.splits)

text \<open>
  Claim C7: the content object that \<open>signAndSubmitVotes\<close> hashes and signs has exactly the
  fields \<open>acknowledged_at\<close>, \<open>acknowledged_board_hash\<close>, \<open>election_id\<close>,
  \<open>voter_identifier\<close> and \<open>votes\<close>; \<open>votes\<close> maps each contest id to the cryptogram of its
  envelope only, so the content does not change with the proofs or the randomizers; the
  proofs travel beside it in \<open>cryptogramsWithProofs\<close>; and what is sent to the bulletin
  board is the hash of this content with the voter's signature over that hash.
\<close>

theorem signed_content:
  "content ackd eid (Some vid) (Some encs) =
     JObj [(''acknowledged_at'', JStr (currentTime ackd)),
           (''acknowledged_board_hash'', JStr (currentBoardHash ackd)),
           (''election_id'', JNum eid),
           (''voter_identifier'', JStr vid),
           (''votes'', JObj (map (\<lambda>(contestId, c). (contestId, JStr c)) (votesOf (Some encs))))]
   \<and> (distinct (map fst encs) \<longrightarrow>
        votesOf (Some encs) = map (\<lambda>(contestId, e). (contestId, cryptogram e)) encs
        \<and> cryptogramsWithProofsOf (Some encs) =
            map (\<lambda>(contestId, e).
                   (contestId, \<lparr> cwp_cryptogram = cryptogram e, cwp_proof = proof' e \<rparr>)) encs)
   \<and> content ackd eid (Some vid)
        (Some (map (\<lambda>(k, e). (k, e\<lparr> randomness := r k e, proof' := p k e \<rparr>)) encs))
      = content ackd eid (Some vid) (Some encs)
   \<and> (acknowledge w = Inr ackd \<longrightarrow>
        (let contentHash =
               hashString w (JSON_stringify w (content ackd eid (Some vid) (Some encs)));
             voterSignature = generateSchnorrSignature w contentHash priv
         in fst (signAndSubmitVotes w (Some vid) eid (Some encs) priv sigKey aff) =
              (case submit w contentHash voterSignature (cryptogramsWithProofsOf (Some encs)) of
                 Inl e \<Rightarrow> Inl e
               | Inr receipt \<Rightarrow>
                   (case fst (verifyReceipt w contentHash voterSignature receipt sigKey) of
                      Inl e \<Rightarrow> Inl e
                    | Inr u \<Rightarrow> Inr receipt))))"
proof -
  have fields: "content ackd eid (Some vid) (Some encs) =
     JObj [(''acknowledged_at'', JStr (currentTime ackd)),
           (''acknowledged_board_hash'', JStr (currentBoardHash ackd)),
           (''election_id'', JNum eid),
           (''voter_identifier'', JStr vid),
           (''votes'', JObj (map (\<lambda>(contestId, c). (contestId, JStr c)) (votesOf (Some encs))))]"
    by (simp add: content_def jsonOfString_def)
  have sent: "acknowledge w = Inr ackd \<longrightarrow>
        (let contentHash =
               hashString w (JSON_stringify w (content ackd eid (Some vid) (Some encs)));
             voterSignature = generateSchnorrSignature w contentHash priv
         in fst (signAndSubmitVotes w (Some vid) eid (Some encs) priv sigKey aff) =
              (case submit w contentHash voterSignature (cryptogramsWithProofsOf (Some encs)) of
                 Inl e \<Rightarrow> Inl e
               | Inr receipt \<Rightarrow>
                   (case fst (verifyReceipt w contentHash voterSignature receipt sigKey) of
                      Inl e \<Rightarrow> Inl e
                    | Inr u \<Rightarrow> Inr receipt)))"
  proof
    assume ack: "acknowledge w = Inr ackd"
    show "let contentHash =
               hashString w (JSON_stringify w (content ackd eid (Some vid) (Some encs)));
             voterSignature = generateSchnorrSignature w contentHash priv
         in fst (signAndSubmitVotes w (Some vid) eid (Some encs) priv sigKey aff) =
              (case submit w contentHash voterSignature (cryptogramsWithProofsOf (Some encs)) of
                 Inl e \<Rightarrow> Inl e
               | Inr receipt \<Rightarrow>
                   (case fst (verifyReceipt w contentHash voterSignature receipt sigKey) of
                      Inl e \<Rightarrow> Inl e
                    | Inr u \<Rightarrow> Inr receipt))"
      unfolding signAndSubmitVotes_after_acknowledge[OF ack] contentHashOf_def sign_def Let_def
      by (rule refl)
  qed
  show ?thesis
    using fields sent content_ignores_proofs[where ackd = ackd and eid = eid and vid = "Some vid"
        and r = r and p = p and encs = encs]
      votesOf_distinct[of encs] cryptogramsWithProofsOf_distinct[of encs]
    by blast
qed

text \<open>The content and the cryptogram-proof pairs of the two-contest ballot.\<close>

theorem signed_content_witness:
  "content demoAcknowledged 1 (Some ''voter-1'') (Some demoEnvelopes) =
     JObj [(''acknowledged_at'', JStr ''2020-03-01T09:59:00.000+01:00''),
           (''acknowledged_board_hash'', JStr ''b0''),
           (''election_id'', JNum 1),
           (''voter_identifier'', JStr ''voter-1''),
           (''votes'', JObj [(''1'', JStr ''c:option1''), (''2'', JStr ''c:optiona'')])]
   \<and> cryptogramsWithProofsOf (Some demoEnvelopes) =
       [(''1'', \<lparr> cwp_cryptogram = ''c:option1'', cwp_proof = ''p:1'' \<rparr>),
        (''2'', \<lparr> cwp_cryptogram = ''c:optiona'', cwp_proof = ''p:2'' \<rparr>)]"
proof -
  have d: "distinct (map fst demoEnvelopes)" by (simp add: demoEnvelopes_def)
  have ack: "acknowledge demoWorld = Inr demoAcknowledged"
    by (simp add: acknowledge_def demoWorld_def demoAcknowledged_def)
  from signed_content[of demoAcknowledged 1 "''voter-1''" demoEnvelopes "\<lambda>k e. []" "\<lambda>k e. []"
      demoWorld "''5e4d''" "''03bb''" "''doc''"] d
  have "content demoAcknowledged 1 (Some ''voter-1'') (Some demoEnvelopes) =
     JObj [(''acknowledged_at'', JStr (currentTime demoAcknowledged)),
           (''acknowledged_board_hash'', JStr (currentBoardHash demoAcknowledged)),
           (''election_id'', JNum 1),
           (''voter_identifier'', JStr ''voter-1''),
           (''votes'', JObj (map (\<lambda>(contestId, c). (contestId, JStr c)) (votesOf (Some demoEnvelopes))))]"
    and "votesOf (Some demoEnvelopes) = map (\<lambda>(contestId, e). (contestId, cryptogram e)) demoEnvelopes"
    and "cryptogramsWithProofsOf (Some demoEnvelopes) =
            map (\<lambda>(contestId, e).
                   (contestId, \<lparr> cwp_cryptogram = cryptogram e, cwp_proof = proof' e \<rparr>)) demoEnvelopes"
    by blast+
  then show ?thesis by (simp add: demoEnvelopes_def demoAcknowledged_def)
qed

section \<open>Decimal contest ids\<close>

lemma toString_1: "toString (Suc 0) = ''1''"
  by code_simp

lemma toString_2: "toString 2 = ''2''"
  by code_simp

section \<open>Lifecycle guards\<close>

text \<open>
  Claim C5 on the code: \<open>spoilBallotCryptograms\<close> is not implemented. In every state it
  throws \<open>Error('Not implemented yet')\<close>, without re-encrypting, exchanging or verifying
  anything, and leaves the client as it was.
\<close>

theorem spoilBallotCryptograms_not_implemented:
  "spoilBallotCryptograms this = (Inl (Error ''Not implemented yet''), this, [])"
  by (simp add: spoilBallotCryptograms_def)

text \<open>
  Claim C2 on the code: the guards of \<open>constructBallotCryptograms\<close> and
  \<open>submitBallotCryptograms\<close> throw only when all of their prerequisites are missing. A
  client without contest ids constructs its cryptograms, and a registered client that has
  not constructed a ballot passes the guard of \<open>submitBallotCryptograms\<close>: the bulletin
  board is called and an empty \<open>votes\<close> object is hashed, signed and submitted.
\<close>

theorem submit_without_envelopes:
  "contestIds (registeredClient\<lparr> contestIds := None \<rparr>) = None
   \<and> \<not> isl (fst (constructBallotCryptograms demoWorld demoCvr
                    (registeredClient\<lparr> contestIds := None \<rparr>)))
   \<and> voteEncryptions registeredClient = None
   \<and> \<not> isl (fst (submitBallotCryptograms demoWorld ''doc'' registeredClient))
   \<and> snd (snd (submitBallotCryptograms demoWorld ''doc'' registeredClient)) =
       [Crypto EncryptAffidavit, Network GetBoardHash, Crypto HashString,
        Crypto GenerateSchnorrSignature, Network SubmitVotes,
        Crypto HashString, Crypto HashString, Crypto VerifySchnorrSignature]
   \<and> contentHashOf demoWorld demoAcknowledged 1 (voterIdentifier registeredClient)
        (voteEncryptions registeredClient) =
       hashString demoWorld (JSON_stringify demoWorld
         (JObj [(''acknowledged_at'', JStr ''2020-03-01T09:59:00.000+01:00''),
                (''acknowledged_board_hash'', JStr ''b0''),
                (''election_id'', JNum 1),
                (''voter_identifier'', JStr ''voter-1''),
                (''votes'', JObj [])]))"
  by (simp add: registeredClient_def validatedClient_def initializedClient_def newAVClient_def
      submitBallotCryptograms_def getElectionConfig_def signAndSubmitVotes_def acknowledge_def
      submit_def verifyReceipt_def demoWorld_def demoConfig_def demoReceipt_def
      boardHashObject_def receiptHashObject_def Let_def contentHashOf_def content_def
      votesOf_def forInEntries_def jsonOfString_def sign_def demoAcknowledged_def
      constructBallotCryptograms_def demoCvr_def validateCvr_def findContest_def toString_1
      toString_2 objKeys_def)

section \<open>Validation of the cast-vote-record before encryption\<close>

lemma findContest_None_iff:
  "findContest contests contestId = None \<longleftrightarrow>
     (\<forall>b \<in> set contests. toString (ballot_id b) \<noteq> contestId)"
  by (auto simp: findContest_def find_None_iff)

lemma validateCvr_invalid_contest:
  assumes "(contestId, selection) \<in> set cvr"
    and "\<forall>b \<in> set contests. toString (ballot_id b) \<noteq> contestId"
  shows "validateCvr cvr contests = Invalid_contest"
proof -
  have "findContest contests contestId = None"
    using assms(2) by (simp add: findContest_None_iff)
  then have "\<not> list_all (\<lambda>(contestId, selection). findContest contests contestId \<noteq> None) cvr"
    using assms(1) by (auto simp: list_all_iff intro!: bexI[of _ "(contestId, selection)"])
  then show ?thesis by (simp add: validateCvr_def)
qed

lemma validateCvr_invalid_option:
  assumes known: "\<forall>(contestId, selection) \<in> set cvr.
                    \<exists>b \<in> set contests. toString (ballot_id b) = contestId"
    and entry: "(contestId, selection) \<in> set cvr"
    and found: "findContest contests contestId = Some contest"
    and bad: "selection \<notin> set (options contest)"
  shows "validateCvr cvr contests = Invalid_option"
proof -
  have all: "list_all (\<lambda>(contestId, selection). findContest contests contestId \<noteq> None) cvr"
    using known by (auto simp: list_all_iff findContest_None_iff)
  have "\<not> list_all (\<lambda>(contestId, selection).
                    case findContest contests contestId of
                      None \<Rightarrow> False
                    | Some contest \<Rightarrow> selection \<in> set (options contest)) cvr"
    using entry found bad by (auto simp: list_all_iff intro!: bexI[of _ "(contestId, selection)"])
  then show ?thesis using all by (simp add: validateCvr_def)
qed

text \<open>
  Claim C4: on a client that passes the registration guard and has a configuration, a
  cast-vote-record with a contest id that no configured contest has makes
  \<open>constructBallotCryptograms\<close> fail with \<open>CorruptCvrError\<close> "invalid contest"; one whose
  contest ids are all configured but with a selection that is not an option of its contest
  makes it fail with "invalid option". In both cases the client is unchanged and the log
  of network and cryptographic calls is empty.
\<close>

theorem corrupt_cvr_rejected:
  assumes registered:
      "truthyString (voterIdentifier this) \<or> truthyObject (emptyCryptograms this)
       \<or> truthyObject (contestIds this)"
    and configured: "electionConfig this = Some config"
  shows
    "((\<exists>(contestId, selection) \<in> set cvr.
         \<forall>b \<in> set (ballots config). toString (ballot_id b) \<noteq> contestId) \<longrightarrow>
        constructBallotCryptograms w cvr this =
          (Inl (CorruptCvrError ''Corrupt CVR: Contains invalid contest''), this, []))
   \<and> ((\<forall>(contestId, selection) \<in> set cvr.
          \<exists>b \<in> set (ballots config). toString (ballot_id b) = contestId)
       \<and> (\<exists>(contestId, selection) \<in> set cvr.
            \<exists>contest. findContest (ballots config) contestId = Some contest
                      \<and> selection \<notin> set (options contest)) \<longrightarrow>
        constructBallotCryptograms w cvr this =
          (Inl (CorruptCvrError ''Corrupt CVR: Contains invalid option''), this, []))"
proof (intro conjI impI)
  assume "\<exists>(contestId, selection) \<in> set cvr.
            \<forall>b \<in> set (ballots config). toString (ballot_id b) \<noteq> contestId"
  then have "validateCvr cvr (ballots config) = Invalid_contest"
    by (auto intro: validateCvr_invalid_contest)
  then show "constructBallotCryptograms w cvr this =
          (Inl (CorruptCvrError ''Corrupt CVR: Contains invalid contest''), this, [])"
    using registered configured
    by (simp add: constructBallotCryptograms_def getElectionConfig_def Let_def)
next
  assume a: "(\<forall>(contestId, selection) \<in> set cvr.
          \<exists>b \<in> set (ballots config). toString (ballot_id b) = contestId)
       \<and> (\<exists>(contestId, selection) \<in> set cvr.
            \<exists>contest. findContest (ballots config) contestId = Some contest
                      \<and> selection \<notin> set (options contest))"
  then obtain contestId selection contest where
    "(contestId, selection) \<in> set cvr"
    "findContest (ballots config) contestId = Some contest"
    "selection \<notin> set (options contest)"
    by auto
  with a have "validateCvr cvr (ballots config) = Invalid_option"
    using validateCvr_invalid_option[of cvr "ballots config" contestId selection contest] by blast
  then show "constructBallotCryptograms w cvr this =
          (Inl (CorruptCvrError ''Corrupt CVR: Contains invalid option''), this, [])"
    using registered configured
    by (simp add: constructBallotCryptograms_def getElectionConfig_def Let_def)
qed

text \<open>The two invalid records of the repository's tests, on the registered client.\<close>

theorem corrupt_cvr_rejected_witness:
  "constructBallotCryptograms demoWorld [(''1'', ''option1''), (''3'', ''optiona'')] registeredClient
     = (Inl (CorruptCvrError ''Corrupt CVR: Contains invalid contest''), registeredClient, [])
   \<and> constructBallotCryptograms demoWorld [(''1'', ''option1''), (''2'', ''wrong_option'')]
       registeredClient
     = (Inl (CorruptCvrError ''Corrupt CVR: Contains invalid option''), registeredClient, [])"
proof -
  have registered: "truthyString (voterIdentifier registeredClient)
       \<or> truthyObject (emptyCryptograms registeredClient)
       \<or> truthyObject (contestIds registeredClient)"
    by (simp add: registeredClient_def)
  have configured: "electionConfig registeredClient = Some demoConfig"
    by (simp add: registeredClient_def validatedClient_def initializedClient_def)
  have contest3: "\<exists>(contestId, selection) \<in> set [(''1'', ''option1''), (''3'', ''optiona'')].
         \<forall>b \<in> set (ballots demoConfig). toString (ballot_id b) \<noteq> contestId"
    by (simp add: demoConfig_def toString_1 toString_2)
  have known: "\<forall>(contestId, selection) \<in> set [(''1'', ''option1''), (''2'', ''wrong_option'')].
          \<exists>b \<in> set (ballots demoConfig). toString (ballot_id b) = contestId"
    by (simp add: demoConfig_def toString_1 toString_2)
  have wrong: "\<exists>(contestId, selection) \<in> set [(''1'', ''option1''), (''2'', ''wrong_option'')].
            \<exists>contest. findContest (ballots demoConfig) contestId = Some contest
                      \<and> selection \<notin> set (options contest)"
    by (simp add: demoConfig_def findContest_def toString_1 toString_2)
  show ?thesis
    using corrupt_cvr_rejected[OF registered configured,
        of "[(''1'', ''option1''), (''3'', ''optiona'')]" demoWorld]
      corrupt_cvr_rejected[OF registered configured,
        of "[(''1'', ''option1''), (''2'', ''wrong_option'')]" demoWorld]
      contest3 known wrong
    by blast
qed

section \<open>The ballot tracking code\<close>

lemma extractCryptograms_ignores_proofs:
  "extractCryptograms (map (\<lambda>(k, e). (k, e\<lparr> randomness := r k e, proof' := p k e \<rparr>)) envelopes)
   = extractCryptograms envelopes"
proof -
  have "(\<lambda>(contestId, envelope). (contestId, cryptogram envelope))
          \<circ> (\<lambda>(k, e). (k, e\<lparr> randomness := r k e, proof' := p k e \<rparr>))
        = (\<lambda>(contestId, envelope). (contestId, cryptogram envelope))"
    by (auto simp: fun_eq_iff)
  then show ?thesis by (simp add: extractCryptograms_def)
qed

lemma extractCryptograms_distinct:
  "distinct (map fst envelopes) \<Longrightarrow>
   extractCryptograms envelopes = map (\<lambda>(contestId, e). (contestId, cryptogram e)) envelopes"
proof -
  assume d: "distinct (map fst envelopes)"
  have keys: "map fst (map (\<lambda>(contestId, e). (contestId, cryptogram e)) envelopes)
                = map fst envelopes"
    by (induction envelopes) auto
  have "distinct (map fst (map (\<lambda>(contestId, e). (contestId, cryptogram e)) envelopes))"
    unfolding keys using d .
  then show ?thesis
    unfolding extractCryptograms_def by (rule fromEntries_distinct)
qed

lemma constructBallotCryptograms_success:
  "constructBallotCryptograms w cvr this = (Inr trackingCode, this', calls) \<Longrightarrow>
   \<exists>envelopes. voteEncryptions this' = Some envelopes
     \<and> trackingCode = fingerprint w (extractCryptograms envelopes)"
  by (auto simp: constructBallotCryptograms_def Let_def
      split: if_splits sum.splits cvr_validation.splits)

text \<open>
  Claim C8: the tracking code that \<open>constructBallotCryptograms\<close> returns is the fingerprint
  of the cryptograms extracted from the envelopes it stores, so recomputing it from the
  stored envelopes gives the same value; replacing the randomizers and proofs of the
  envelopes leaves it unchanged; the extracted map holds each contest's cryptogram only.
\<close>

theorem tracking_code_over_cryptograms:
  "(constructBallotCryptograms w cvr this = (Inr trackingCode, this', calls) \<longrightarrow>
      (\<exists>envelopes. voteEncryptions this' = Some envelopes
         \<and> trackingCode = fingerprint w (extractCryptograms envelopes)))
   \<and> fingerprint w (extractCryptograms
        (map (\<lambda>(k, e). (k, e\<lparr> randomness := r k e, proof' := p k e \<rparr>)) envelopes))
      = fingerprint w (extractCryptograms envelopes)
   \<and> (distinct (map fst envelopes) \<longrightarrow>
        extractCryptograms envelopes =
          map (\<lambda>(contestId, e). (contestId, cryptogram e)) envelopes)"
  using constructBallotCryptograms_success[of w cvr this trackingCode this' calls]
    extractCryptograms_ignores_proofs[where r = r and p = p and envelopes = envelopes]
    extractCryptograms_distinct[of envelopes]
  by simp

text \<open>The tracking code of the two-contest ballot.\<close>

theorem tracking_code_over_cryptograms_witness:
  "fst (constructBallotCryptograms demoWorld demoCvr registeredClient)
     = Inr (fingerprint demoWorld [(''1'', ''c:option1''), (''2'', ''c:optiona'')])
   \<and> voteEncryptions (fst (snd (constructBallotCryptograms demoWorld demoCvr registeredClient)))
     = Some demoEnvelopes"
proof -
  have run: "constructBallotCryptograms demoWorld demoCvr registeredClient =
      (Inr (fingerprint demoWorld (extractCryptograms demoEnvelopes)),
       registeredClient\<lparr> voteEncryptions := Some demoEnvelopes \<rparr>,
       [Crypto Encrypt, Crypto Fingerprint])"
    by (simp add: constructBallotCryptograms_def getElectionConfig_def registeredClient_def
        validatedClient_def initializedClient_def newAVClient_def demoConfig_def demoCvr_def
        validateCvr_def findContest_def toString_1 toString_2 objKeys_def demoWorld_def
        demoEnvelopes_def Let_def fromEntries_def)
  have d: "distinct (map fst demoEnvelopes)" by (simp add: demoEnvelopes_def)
  from tracking_code_over_cryptograms[of demoWorld demoCvr registeredClient
      "fingerprint demoWorld (extractCryptograms demoEnvelopes)"
      "registeredClient\<lparr> voteEncryptions := Some demoEnvelopes \<rparr>"
      "[Crypto Encrypt, Crypto Fingerprint]" "\<lambda>k e. []" "\<lambda>k e. []" demoEnvelopes] run d
  have "extractCryptograms demoEnvelopes =
          map (\<lambda>(contestId, e). (contestId, cryptogram e)) demoEnvelopes"
    by blast
  then show ?thesis using run by (simp add: demoEnvelopes_def)
qed

section \<open>Failed calls and the client's fields\<close>

lemma ifTruthy_None_iff: "ifTruthy v = None \<longleftrightarrow> \<not> truthyString v"
  by (cases v) auto

lemma ifTruthy_Some: "ifTruthy v = Some x \<Longrightarrow> truthyString v"
  by (cases v) (auto split: if_splits)

lemma returning_fst: "isl (fst (returning f out)) = isl (fst out)"
  by (cases "(f, out)" rule: returning.cases) auto

lemma returning_client: "fst (snd (returning f out)) = fst (snd out)"
  by (cases "(f, out)" rule: returning.cases) auto

lemma initialize_failed: "isl (fst (initialize w config this)) \<Longrightarrow>
    fst (snd (initialize w config this)) = this"
  by (auto simp: initialize_def split: option.splits sum.splits prod.splits)

lemma authenticateWithCodes_failed: "isl (fst (authenticateWithCodes w codes this)) \<Longrightarrow>
    fst (snd (authenticateWithCodes w codes this)) = this"
  by (auto simp: authenticateWithCodes_def split: sum.splits)

lemma requestAccessCode_failed: "isl (fst (requestAccessCode w v e this)) \<Longrightarrow>
    fst (snd (requestAccessCode w v e this)) = this"
  by (auto simp: requestAccessCode_def Let_def split: sum.splits)

lemma validateAccessCode_failed: "isl (fst (validateAccessCode w code this)) \<Longrightarrow>
    fst (snd (validateAccessCode w code this)) = this"
  by (auto simp: validateAccessCode_def split: option.splits sum.splits)

lemma registerVoter_failed:
  assumes failed: "isl (fst (registerVoter w this))"
  shows "fst (snd (registerVoter w this)) =
      (if truthyString (identityConfirmationToken this)
       then this\<lparr> keyPair := Some (randomKeyPair w) \<rparr> else this)"
proof (cases "ifTruthy (identityConfirmationToken this)")
  case None
  then have "\<not> truthyString (identityConfirmationToken this)"
    by (simp add: ifTruthy_None_iff)
  with None show ?thesis by (simp add: registerVoter_def)
next
  case t: (Some token)
  let ?this1 = "this\<lparr> keyPair := Some (randomKeyPair w) \<rparr>"
  have truthy: "truthyString (identityConfirmationToken this)" using ifTruthy_Some[OF t] .
  show ?thesis
  proof (cases "getElectionConfig ?this1")
    case (Inl e)
    with t truthy show ?thesis by (simp add: registerVoter_def Let_def)
  next
    case c: (Inr config)
    show ?thesis
    proof (cases "requestPublicKeyAuthorization w (url (voter_authorizer config))
                    (authorizationSessionId ?this1) token (publicKey (randomKeyPair w))")
      case (Inl e)
      with t truthy c show ?thesis by (simp add: registerVoter_def Let_def)
    next
      case a: (Inr tokens)
      obtain registrationToken publicKeyToken where
        tk: "tokens = (registrationToken, publicKeyToken)" by (cases tokens)
      show ?thesis
      proof (cases "bulletinBoardRegisterVoter w (randomKeyPair w) (encryptionKey config)
                      registrationToken publicKeyToken")
        case (Inl e)
        with t truthy c a tk show ?thesis by (simp add: registerVoter_def Let_def)
      next
        case (Inr response)
        with t c a tk have "\<not> isl (fst (registerVoter w this))"
          by (simp add: registerVoter_def Let_def)
        with failed show ?thesis by simp
      qed
    qed
  qed
qed

lemma constructBallotCryptograms_failed:
  assumes failed: "isl (fst (constructBallotCryptograms w cvr this))"
  shows "fst (snd (constructBallotCryptograms w cvr this)) = this"
proof (cases "truthyString (voterIdentifier this) \<or> truthyObject (emptyCryptograms this)
               \<or> truthyObject (contestIds this)")
  case False
  then show ?thesis by (simp add: constructBallotCryptograms_def)
next
  case g: True
  show ?thesis
  proof (cases "getElectionConfig this")
    case (Inl e)
    with g show ?thesis by (simp add: constructBallotCryptograms_def)
  next
    case c: (Inr config)
    show ?thesis
    proof (cases "validateCvr cvr (ballots config)")
      case Invalid_contest
      with g c show ?thesis by (simp add: constructBallotCryptograms_def)
    next
      case Invalid_option
      with g c show ?thesis by (simp add: constructBallotCryptograms_def)
    next
      case v: Okay
      show ?thesis
      proof (cases "emptyCryptogramEntries (emptyCryptograms this) (objKeys cvr)")
        case (Inl e)
        with g c v show ?thesis by (simp add: constructBallotCryptograms_def)
      next
        case em: (Inr emptyEntries)
        show ?thesis
        proof (cases "contestEncodingTypeEntries (ballots config) (objKeys cvr)")
          case (Inl e)
          with g c v em show ?thesis by (simp add: constructBallotCryptograms_def)
        next
          case ty: (Inr typeEntries)
          show ?thesis
          proof (cases "encrypt w cvr (fromEntries emptyEntries) (fromEntries typeEntries)
                          (encryptionKey config)")
            case (Inl e)
            with g c v em ty show ?thesis by (simp add: constructBallotCryptograms_def)
          next
            case (Inr envelopes)
            with g c v em ty have "\<not> isl (fst (constructBallotCryptograms w cvr this))"
              by (simp add: constructBallotCryptograms_def)
            with failed show ?thesis by simp
          qed
        qed
      qed
    qed
  qed
qed

lemma submitBallotCryptograms_client:
  "fst (snd (submitBallotCryptograms w doc this)) = this"
proof (cases "truthyString (voterIdentifier this) \<or> truthyObject (voteEncryptions this)")
  case False
  then show ?thesis by (simp add: submitBallotCryptograms_def)
next
  case g: True
  show ?thesis
  proof (cases "getElectionConfig this")
    case (Inl e)
    with g show ?thesis by (simp add: submitBallotCryptograms_def)
  next
    case (Inr config)
    show ?thesis
    proof (cases "keyPair this")
      case None
      with g Inr show ?thesis by (simp add: submitBallotCryptograms_def)
    next
      case (Some keys)
      with g Inr show ?thesis
        by (simp add: submitBallotCryptograms_def Let_def split: prod.splits)
    qed
  qed
qed

text \<open>
  Claim C6, as the code has it: a call that fails leaves every field of the client as it was
  before the call, with one exception. \<open>registerVoter\<close>, once its identity-confirmation
  guard has passed, stores the fresh key pair before it looks up the configuration and
  before its network steps; when one of them fails, the client differs from the one before
  the call in exactly that key pair.
\<close>

theorem failed_call_leaves_client:
  assumes "isl (fst (perform w c this))"
  shows "fst (snd (perform w c this)) =
           (if c = CallRegisterVoter \<and> truthyString (identityConfirmationToken this)
            then this\<lparr> keyPair := Some (randomKeyPair w) \<rparr>
            else this)"
proof (cases c)
  case (CallInitialize config)
  then show ?thesis using assms initialize_failed[of w config this]
    by (simp add: returning_fst returning_client)
next
  case (CallAuthenticateWithCodes codes)
  then show ?thesis using assms authenticateWithCodes_failed[of w codes this]
    by (simp add: returning_fst returning_client)
next
  case (CallRequestAccessCode v e)
  then show ?thesis using assms requestAccessCode_failed[of w v e this]
    by (simp add: returning_fst returning_client)
next
  case (CallValidateAccessCode code)
  then show ?thesis using assms validateAccessCode_failed[of w code this]
    by (simp add: returning_fst returning_client)
next
  case CallRegisterVoter
  then show ?thesis using assms registerVoter_failed[of w this]
    by (simp add: returning_fst returning_client)
next
  case (CallConstructBallotCryptograms cvr)
  then show ?thesis using assms constructBallotCryptograms_failed[of w cvr this]
    by (simp add: returning_fst returning_client)
next
  case CallGenerateTestCode
  then show ?thesis using assms
    by (simp add: returning_fst generateTestCode_def)
next
  case CallSpoilBallotCryptograms
  then show ?thesis
    by (simp add: returning_client spoilBallotCryptograms_def)
next
  case (CallSubmitBallotCryptograms doc)
  then show ?thesis
    by (simp add: returning_client submitBallotCryptograms_client)
qed

text \<open>
  A submission whose receipt is rejected leaves the registered client unchanged; a
  registration whose coordinator is unreachable leaves the new key pair behind.
\<close>

theorem failed_call_leaves_client_witness:
  "fst (snd (perform forgingWorld (CallSubmitBallotCryptograms ''doc'') registeredClient))
     = registeredClient
   \<and> fst (snd (perform offlineWorld CallRegisterVoter validatedClient))
     = validatedClient\<lparr> keyPair := Some \<lparr> privateKey = ''5e4d'', publicKey = ''03cc'' \<rparr> \<rparr>"
proof -
  have f1: "isl (fst (perform forgingWorld (CallSubmitBallotCryptograms ''doc'') registeredClient))"
    by (simp add: returning_fst registeredClient_def validatedClient_def initializedClient_def
      newAVClient_def submitBallotCryptograms_def getElectionConfig_def signAndSubmitVotes_def
      acknowledge_def submit_def verifyReceipt_def forgingWorld_def demoWorld_def demoHash_def
      Let_def)
  have f2: "isl (fst (perform offlineWorld CallRegisterVoter validatedClient))"
    by (simp add: returning_fst registerVoter_def validatedClient_def initializedClient_def
      newAVClient_def getElectionConfig_def offlineWorld_def demoWorld_def Let_def)
  have k: "randomKeyPair offlineWorld = \<lparr> privateKey = ''5e4d'', publicKey = ''03cc'' \<rparr>"
    by (simp add: offlineWorld_def demoWorld_def)
  have t: "truthyString (identityConfirmationToken validatedClient)"
    by (simp add: validatedClient_def)
  show ?thesis
    using failed_call_leaves_client[OF f1] failed_call_leaves_client[OF f2] k t by simp
qed

text \<open>
  \<open>registerVoter\<close> fails on its network step and the key pair, undefined before the call,
  is set after it: the client is not as it was.
\<close>

theorem registerVoter_failure_counterexample:
  "fst (registerVoter offlineWorld validatedClient)
     = Inl (NetworkError ''Request failed with status code 500'')
   \<and> keyPair validatedClient = None
   \<and> keyPair (fst (snd (registerVoter offlineWorld validatedClient)))
     = Some \<lparr> privateKey = ''5e4d'', publicKey = ''03cc'' \<rparr>"
  by (simp add: registerVoter_def validatedClient_def initializedClient_def
      newAVClient_def getElectionConfig_def offlineWorld_def demoWorld_def Let_def)

section \<open>Calls before the configuration is loaded\<close>

lemma getElectionConfig_None:
  "electionConfig this = None \<Longrightarrow>
   getElectionConfig this =
     Inl (InvalidStateError ''No configuration loaded. Did you call initialize()?'')"
  by (simp add: getElectionConfig_def)

lemma requestAccessCode_no_config:
  assumes "electionConfig this = None"
  shows "requestAccessCode w v e this =
    (Inl (InvalidStateError ''No configuration loaded. Did you call initialize()?''), this, [])"
  by (simp add: requestAccessCode_def getElectionConfig_None[OF assms])

lemma validateAccessCode_no_config:
  assumes "electionConfig this = None"
  shows "validateAccessCode w code this =
    (Inl (InvalidStateError
       (if truthyString (email this)
        then ''No configuration loaded. Did you call initialize()?''
        else ''Cannot validate access code. Access code was not requested.'')), this, [])"
proof (cases "ifTruthy (email this)")
  case None
  then show ?thesis by (simp add: validateAccessCode_def ifTruthy_None_iff[symmetric])
next
  case (Some a)
  then show ?thesis
    using ifTruthy_Some[OF Some]
    by (simp add: validateAccessCode_def getElectionConfig_None[OF assms])
qed

lemma registerVoter_no_config:
  assumes "electionConfig this = None"
  shows "registerVoter w this =
    (if truthyString (identityConfirmationToken this)
     then (Inl (InvalidStateError ''No configuration loaded. Did you call initialize()?''),
           this\<lparr> keyPair := Some (randomKeyPair w) \<rparr>, [Crypto RandomKeyPair])
     else (Inl (InvalidStateError
       ''Cannot register voter without identity confirmation. User has not validated access code.''),
           this, []))"
proof (cases "ifTruthy (identityConfirmationToken this)")
  case None
  then show ?thesis by (simp add: registerVoter_def ifTruthy_None_iff[symmetric])
next
  case (Some a)
  have "electionConfig (this\<lparr> keyPair := Some (randomKeyPair w) \<rparr>) = None"
    using assms by simp
  then show ?thesis
    using ifTruthy_Some[OF Some] Some
    by (simp add: registerVoter_def Let_def getElectionConfig_None)
qed

lemma constructBallotCryptograms_no_config:
  assumes "electionConfig this = None"
  shows "constructBallotCryptograms w cvr this =
    (Inl (InvalidStateError
       (if truthyString (voterIdentifier this) \<or> truthyObject (emptyCryptograms this)
           \<or> truthyObject (contestIds this)
        then ''No configuration loaded. Did you call initialize()?''
        else ''Cannot construct ballot cryptograms. Voter registration not completed successfully'')),
     this, [])"
  by (simp add: constructBallotCryptograms_def getElectionConfig_None[OF assms])

lemma submitBallotCryptograms_no_config:
  assumes "electionConfig this = None"
  shows "submitBallotCryptograms w doc this =
    (Inl (InvalidStateError
       (if truthyString (voterIdentifier this) \<or> truthyObject (voteEncryptions this)
        then ''No configuration loaded. Did you call initialize()?''
        else ''Cannot submit cryptograms. Voter identity unknown or no open envelopes'')),
     this, [])"
  by (simp add: submitBallotCryptograms_def getElectionConfig_None[OF assms])

lemma perform_without_configuration:
  assumes none: "electionConfig this = None" and needs: "needsConfiguration c"
  shows "fst (perform w c this) =
           Inl (InvalidStateError
             (if prerequisiteMet c this
              then ''No configuration loaded. Did you call initialize()?''
              else prerequisiteMessage c))
       \<and> electionConfig (fst (snd (perform w c this))) = None
       \<and> \<not> list_ex isNetwork (snd (snd (perform w c this)))"
proof (cases c)
  case (CallRequestAccessCode v e)
  then show ?thesis by (simp add: requestAccessCode_no_config[OF none] none)
next
  case (CallValidateAccessCode code)
  then show ?thesis by (simp add: validateAccessCode_no_config[OF none] none)
next
  case CallRegisterVoter
  then show ?thesis by (simp add: registerVoter_no_config[OF none] none)
next
  case (CallConstructBallotCryptograms cvr)
  then show ?thesis by (simp add: constructBallotCryptograms_no_config[OF none] none)
next
  case (CallSubmitBallotCryptograms doc)
  then show ?thesis by (simp add: submitBallotCryptograms_no_config[OF none] none)
qed (use needs in simp_all)

text \<open>
  Claim C10, as the code has it: on a client without a configuration, over any sequence of
  calls of \<open>requestAccessCode\<close>, \<open>validateAccessCode\<close>, \<open>registerVoter\<close>,
  \<open>constructBallotCryptograms\<close> and \<open>submitBallotCryptograms\<close>, every call throws an
  \<open>InvalidStateError\<close>, calls no network service, and leaves the configuration absent. The
  message is "No configuration loaded. Did you call initialize()?" when the operation's own
  prerequisite check passes, and the message of that check otherwise, because each
  operation checks its prerequisite before it reads the configuration.
\<close>

theorem calls_without_configuration:
  assumes "electionConfig this = None" and "list_all needsConfiguration calls"
  shows "\<forall>(before, c, result, effects) \<in> set (runCalls w calls this).
           electionConfig before = None
           \<and> result = Inl (InvalidStateError
                (if prerequisiteMet c before
                 then ''No configuration loaded. Did you call initialize()?''
                 else prerequisiteMessage c))
           \<and> \<not> list_ex isNetwork effects"
  using assms
proof (induction calls arbitrary: this)
  case Nil
  then show ?case by simp
next
  case (Cons c cs)
  obtain result this' effects where p: "perform w c this = (result, this', effects)"
    by (cases "perform w c this") auto
  have needs: "needsConfiguration c" and rest: "list_all needsConfiguration cs"
    using Cons.prems(2) by simp_all
  from perform_without_configuration[OF Cons.prems(1) needs, of w] p
  have step: "result = Inl (InvalidStateError
             (if prerequisiteMet c this
              then ''No configuration loaded. Did you call initialize()?''
              else prerequisiteMessage c))"
    and after: "electionConfig this' = None"
    and quiet: "\<not> list_ex isNetwork effects"
    by simp_all
  from Cons.IH[OF after rest] step quiet Cons.prems(1) p
  show ?case by simp
qed

text \<open>Two calls on a new client: the first reports the configuration, the second its guard.\<close>

theorem calls_without_configuration_witness:
  "runCalls demoWorld
     [CallRequestAccessCode ''voter123'' ''voter@foo.bar'', CallConstructBallotCryptograms demoCvr]
     newAVClient =
   [(newAVClient, CallRequestAccessCode ''voter123'' ''voter@foo.bar'',
     Inl (InvalidStateError ''No configuration loaded. Did you call initialize()?''), []),
    (newAVClient, CallConstructBallotCryptograms demoCvr,
     Inl (InvalidStateError
       ''Cannot construct ballot cryptograms. Voter registration not completed successfully''),
     [])]"
proof -
  let ?calls = "[CallRequestAccessCode ''voter123'' ''voter@foo.bar'',
                 CallConstructBallotCryptograms demoCvr]"
  have none: "electionConfig newAVClient = None" by (simp add: newAVClient_def)
  have needs: "list_all needsConfiguration ?calls" by simp
  have run: "map (\<lambda>(before, c, result, effects). (before, c, effects))
               (runCalls demoWorld ?calls newAVClient)
             = [(newAVClient, CallRequestAccessCode ''voter123'' ''voter@foo.bar'', []),
                (newAVClient, CallConstructBallotCryptograms demoCvr, [])]"
    by (simp add: requestAccessCode_no_config[OF none]
        constructBallotCryptograms_no_config[OF none])
  have pre: "\<not> prerequisiteMet (CallConstructBallotCryptograms demoCvr) newAVClient"
    by (simp add: newAVClient_def)
  from calls_without_configuration[OF none needs, of demoWorld] run pre
  show ?thesis
    by (simp add: requestAccessCode_no_config[OF none]
        constructBallotCryptograms_no_config[OF none])
qed

text \<open>
  On a new client \<open>constructBallotCryptograms\<close> throws an \<open>InvalidStateError\<close> whose message
  is that of its registration guard, not the one about the configuration.
\<close>

theorem construct_without_configuration_counterexample:
  "electionConfig newAVClient = None
   \<and> fst (constructBallotCryptograms demoWorld demoCvr newAVClient) =
       Inl (InvalidStateError
         ''Cannot construct ballot cryptograms. Voter registration not completed successfully'')
   \<and> fst (constructBallotCryptograms demoWorld demoCvr newAVClient) \<noteq>
       Inl (InvalidStateError ''No configuration loaded. Did you call initialize()?'')"
  by (simp add: newAVClient_def constructBallotCryptograms_def)

section \<open>Decrypting the combined cryptograms\<close>

subsection \<open>One slot\<close>




subsection \<open>The bytes of a selection\<close>












subsection \<open>The enumeration of an object\<close>

text \<open>
  The enumeration of an object depends on its keys only: it commutes with a change of the
  values, keeps the entries and, between objects with the same keys, the order.
\<close>

lemma objectFromEntries_order:
  "objectFromEntries [(''b'', 1), (''10'', 2), (''9'', 3), (''b'', 4), (''01'', 5::nat)]
     = [(''9'', 3), (''10'', 2), (''b'', 4), (''01'', 5)]"
  by code_simp











subsection \<open>The whole record\<close>







end
